theory Spec2Isabelle
  imports Complex_Main "HOL-Library.Code_Target_Nat" "HOL-Library.Log_Nat"
begin

section \<open>Strings and regular expressions of the source language\<close>

text \<open>
  A JavaScript string is a sequence of UTF-16 code units; \<open>length\<close>, \<open>trim\<close>, \<open>===\<close> and
  the regular expressions of the source (none carries the \<open>u\<close> flag) all work on code units.
  A code unit is a natural number here; \<open>js\<close> turns an ASCII literal into such a string.
\<close>

type_synonym jsstring = "nat list"

definition js :: "string \<Rightarrow> jsstring" where
  "js s = map of_char s"

text \<open>White space and line terminators of ECMAScript: what \<open>trim()\<close> strips and \<open>\s\<close> matches.\<close>

definition isWhiteSpace :: "nat \<Rightarrow> bool" where
  "isWhiteSpace c \<longleftrightarrow>
     (9 \<le> c \<and> c \<le> 13) \<or> c = 32 \<or> c = 160 \<or> c = 5760 \<or> (8192 \<le> c \<and> c \<le> 8202)
     \<or> c = 8232 \<or> c = 8233 \<or> c = 8239 \<or> c = 8287 \<or> c = 12288 \<or> c = 65279"

definition isLineTerminator :: "nat \<Rightarrow> bool" where
  "isLineTerminator c \<longleftrightarrow> c = 10 \<or> c = 13 \<or> c = 8232 \<or> c = 8233"

definition trim :: "jsstring \<Rightarrow> jsstring" where
  "trim s = rev (dropWhile isWhiteSpace (rev (dropWhile isWhiteSpace s)))"

text \<open>\<open>s.includes(t)\<close>, \<open>s.startsWith(t)\<close> and \<open>s.endsWith(t)\<close>.\<close>

definition startsWith :: "jsstring \<Rightarrow> jsstring \<Rightarrow> bool" where
  "startsWith s t \<longleftrightarrow> take (length t) s = t"

definition endsWith :: "jsstring \<Rightarrow> jsstring \<Rightarrow> bool" where
  "endsWith s t \<longleftrightarrow> length t \<le> length s \<and> drop (length s - length t) s = t"

primrec includesStr :: "jsstring \<Rightarrow> jsstring \<Rightarrow> bool" where
  "includesStr [] t \<longleftrightarrow> t = []"
| "includesStr (c # s) t \<longleftrightarrow> startsWith (c # s) t \<or> includesStr s t"

text \<open>
  The regular expressions of the source, as syntax trees. \<open>Cls neg rs\<close> is a character class
  given by inclusive ranges of code units, negated when \<open>neg\<close> holds; \<open>Bol\<close> and \<open>Eol\<close> are
  \<open>^\<close> and \<open>$\<close>; \<open>NotAhead\<close> is the negative lookahead \<open>(?!...)\<close>.
\<close>

datatype rx =
    Eps
  | Cls bool "(nat \<times> nat) list"
  | Seq rx rx
  | Alt rx rx
  | Star rx
  | Bol
  | Eol
  | NotAhead rx

text \<open>
  A position in the subject is the code unit just before it (none at the start) and the rest
  of the subject. \<open>rxm ml r p\<close> lists the positions at which a match of \<open>r\<close> begun at \<open>p\<close> can
  end, in the order in which a backtracking matcher tries them (a greedy star prefers one more
  iteration, an alternative prefers its left branch), so the head of the list is the match
  JavaScript reports. \<open>ml\<close> is the \<open>m\<close> flag. An iteration of a star that consumes nothing is
  dropped, as ECMAScript does, so the length of the rest bounds the number of iterations.
\<close>

type_synonym pos = "nat option \<times> jsstring"

definition inRanges :: "(nat \<times> nat) list \<Rightarrow> nat \<Rightarrow> bool" where
  "inRanges rs c = list_ex (\<lambda>(lo, hi). lo \<le> c \<and> c \<le> hi) rs"

primrec iter :: "(pos \<Rightarrow> pos list) \<Rightarrow> nat \<Rightarrow> pos \<Rightarrow> pos list" where
  "iter f 0 p = [p]"
| "iter f (Suc n) p =
     concat (map (iter f n) (filter (\<lambda>q. length (snd q) < length (snd p)) (f p))) @ [p]"

primrec rxm :: "bool \<Rightarrow> rx \<Rightarrow> pos \<Rightarrow> pos list" where
  "rxm ml Eps p = [p]"
| "rxm ml (Cls neg rs) p =
     (case snd p of
        [] \<Rightarrow> []
      | c # s \<Rightarrow> if inRanges rs c \<noteq> neg then [(Some c, s)] else [])"
| "rxm ml (Seq a b) p = concat (map (rxm ml b) (rxm ml a p))"
| "rxm ml (Alt a b) p = rxm ml a p @ rxm ml b p"
| "rxm ml (Star a) p = iter (rxm ml a) (length (snd p)) p"
| "rxm ml Bol p =
     (case fst p of
        None \<Rightarrow> [p]
      | Some c \<Rightarrow> if ml \<and> isLineTerminator c then [p] else [])"
| "rxm ml Eol p =
     (case snd p of
        [] \<Rightarrow> [p]
      | c # s \<Rightarrow> if ml \<and> isLineTerminator c then [p] else [])"
| "rxm ml (NotAhead a) p = (if rxm ml a p = [] then [p] else [])"

text \<open>The leftmost match: where it starts and where it ends.\<close>

fun rxsearch :: "bool \<Rightarrow> rx \<Rightarrow> pos \<Rightarrow> (pos \<times> pos) option" where
  "rxsearch ml r (prev, []) =
     (case rxm ml r (prev, []) of [] \<Rightarrow> None | q # qs \<Rightarrow> Some ((prev, []), q))"
| "rxsearch ml r (prev, c # s) =
     (case rxm ml r (prev, c # s) of
        [] \<Rightarrow> rxsearch ml r (Some c, s)
      | q # qs \<Rightarrow> Some ((prev, c # s), q))"

text \<open>\<open>re.test(s)\<close> and the matched text of \<open>s.match(re)\<close> for an expression without \<open>g\<close>.\<close>

definition rxtest :: "bool \<Rightarrow> rx \<Rightarrow> jsstring \<Rightarrow> bool" where
  "rxtest ml r s = (rxsearch ml r (None, s) \<noteq> None)"

definition rxmatch :: "bool \<Rightarrow> rx \<Rightarrow> jsstring \<Rightarrow> jsstring option" where
  "rxmatch ml r s =
     (case rxsearch ml r (None, s) of
        None \<Rightarrow> None
      | Some (p, q) \<Rightarrow> Some (take (length (snd p) - length (snd q)) (snd p)))"

text \<open>Shorthands for writing the expressions of the source.\<close>

definition Chr :: "char \<Rightarrow> rx" where "Chr c = Cls False [(of_char c, of_char c)]"
definition Plus :: "rx \<Rightarrow> rx" where "Plus r = Seq r (Star r)"
definition Opt :: "rx \<Rightarrow> rx" where "Opt r = Alt r Eps"
definition Str :: "string \<Rightarrow> rx" where "Str s = foldr (\<lambda>c r. Seq (Chr c) r) s Eps"
definition Alts :: "rx list \<Rightarrow> rx" where "Alts rs = foldr Alt (butlast rs) (last rs)"
definition Seqs :: "rx list \<Rightarrow> rx" where "Seqs rs = foldr Seq rs Eps"

text \<open>
  Under the \<open>i\<close> flag a letter of the pattern matches both of its cases. Without the
  \<open>u\<close> flag no code unit outside ASCII canonicalises to an ASCII letter, so an ASCII letter
  stands for exactly its two cases.
\<close>

definition ciChr :: "char \<Rightarrow> rx" where
  "ciChr c =
     (let n = of_char c in
      if 97 \<le> n \<and> n \<le> 122 then Cls False [(n, n), (n - 32, n - 32)]
      else if 65 \<le> n \<and> n \<le> 90 then Cls False [(n, n), (n + 32, n + 32)]
      else Cls False [(n, n)])"

definition StrCI :: "string \<Rightarrow> rx" where
  "StrCI s = foldr (\<lambda>c r. Seq (ciChr c) r) s Eps"

definition wsRanges :: "(nat \<times> nat) list" where
  "wsRanges = [(9, 13), (32, 32), (160, 160), (5760, 5760), (8192, 8202), (8232, 8233),
               (8239, 8239), (8287, 8287), (12288, 12288), (65279, 65279)]"

definition rxS :: rx where "rxS = Cls False wsRanges"
definition rxD :: rx where "rxD = Cls False [(48, 57)]"
definition rxAlpha :: rx where "rxAlpha = Cls False [(97, 122), (65, 90)]"
definition rxAny :: rx where "rxAny = Cls True []"
definition rxDot :: rx where "rxDot = Cls True [(10, 10), (13, 13), (8232, 8233)]"

text \<open>\<open>s.replace(/lit/g, "")\<close> for a literal pattern: leftmost occurrences, not overlapping.\<close>

primrec removeAllFrom :: "jsstring \<Rightarrow> nat \<Rightarrow> jsstring \<Rightarrow> jsstring" where
  "removeAllFrom pat skip [] = []"
| "removeAllFrom pat skip (c # s) =
     (if 0 < skip then removeAllFrom pat (skip - 1) s
      else if pat \<noteq> [] \<and> take (length pat) (c # s) = pat then removeAllFrom pat (length pat - 1) s
      else c # removeAllFrom pat 0 s)"

definition removeAll :: "jsstring \<Rightarrow> jsstring \<Rightarrow> jsstring" where
  "removeAll pat s = removeAllFrom pat 0 s"


section \<open>Numbers of the source language\<close>

text \<open>
  A JavaScript number is an IEEE 754 binary64 value. The finite ones are the rationals
  \<open>m * 2 ^ e\<close> with \<open>\<bar>m\<bar> < 2 ^ 53\<close> and \<open>- 1074 \<le> e\<close>, of magnitude below \<open>2 ^ 1024\<close>. Every
  arithmetic operation gives the exact result rounded to the nearest such value, a tie going
  to the value with the even significand; a decimal literal denotes the value nearest to it.

  \<open>expo x\<close> is the binary exponent of a positive \<open>x\<close>: \<open>2 ^ expo x \<le> x < 2 ^ (expo x + 1)\<close>.
  \<open>fl\<close> is the rounding: the significand has 53 bits above the exponent \<open>- 1022\<close>, and below it
  the spacing stays \<open>2 ^ - 1074\<close> (subnormal values). A result of magnitude \<open>2 ^ 1024\<close> or
  more is \<open>Infinity\<close> in the language and is not a value of this model; \<open>finiteNumber\<close> says
  that a rounded result is below that bound. The sign of zero is not represented.
\<close>

type_synonym number = rat

definition pow2 :: "int \<Rightarrow> rat" where
  "pow2 e = (if 0 \<le> e then 2 ^ nat e else 1 / 2 ^ nat (- e))"

definition expo :: "rat \<Rightarrow> int" where
  "expo x = (if 1 \<le> x then bitlen \<lfloor>x\<rfloor> - 1 else - bitlen (\<lceil>1 / x\<rceil> - 1))"

definition roundHalfEven :: "rat \<Rightarrow> int" where
  "roundHalfEven y =
     (let f = \<lfloor>y\<rfloor>; r = y - of_int f in
      if r < 1 / 2 then f else if 1 / 2 < r then f + 1 else if even f then f else f + 1)"

definition fl :: "rat \<Rightarrow> number" where
  "fl x =
     (if x = 0 then 0
      else (let e = max (expo \<bar>x\<bar> - 52) (- 1074);
                m = roundHalfEven (\<bar>x\<bar> / pow2 e)
            in sgn x * of_int m * pow2 e))"


text \<open>The operators \<open>+\<close>, \<open>*\<close> and \<open>/\<close> on numbers (the divisor is not zero where they are used).\<close>

definition fadd :: "number \<Rightarrow> number \<Rightarrow> number" where "fadd a b = fl (a + b)"
definition fmul :: "number \<Rightarrow> number \<Rightarrow> number" where "fmul a b = fl (a * b)"
definition fdiv :: "number \<Rightarrow> number \<Rightarrow> number" where "fdiv a b = fl (a / b)"



section \<open>The rotating key pool and the Repair Protocol (repairService)\<close>

text \<open>A thrown \<open>Error\<close> carries its message.\<close>

datatype error = Error string

text \<open>Reading a JavaScript array out of range gives \<open>undefined\<close>: \<open>None\<close> here.\<close>

definition nth_opt :: "'a list \<Rightarrow> nat \<Rightarrow> 'a option" where
  "nth_opt xs i = (if i < length xs then Some (xs ! i) else None)"

text \<open>
  \<open>getNextKey\<close> reads the module variable \<open>keyPointer\<close> and advances it; the model takes the
  pointer and returns the key read and the new pointer. The body is synchronous, so no other
  worker of the event loop runs between the read and the write.
\<close>

definition getNextKey :: "jsstring list \<Rightarrow> nat \<Rightarrow> error + (jsstring option \<times> nat)" where
  "getNextKey OPENROUTER_KEYS keyPointer =
     (if length OPENROUTER_KEYS = 0
      then Inl (Error ''No OpenRouter keys configured. Set OPENROUTER_KEYS in .env'')
      else Inr (nth_opt OPENROUTER_KEYS keyPointer, (keyPointer + 1) mod length OPENROUTER_KEYS))"

text \<open>
  Consecutive calls: what the first \<open>n\<close> calls that start at pointer \<open>p\<close> do. Each call is
  recorded by the index it read, which is the pointer it found, and the key it returned.
  \<open>selectedIndices\<close> are the indices read and \<open>selectedKeys\<close> the keys handed out.
\<close>

fun keyCalls :: "jsstring list \<Rightarrow> nat \<Rightarrow> nat \<Rightarrow> (nat \<times> jsstring option) list" where
  "keyCalls ks p 0 = []"
| "keyCalls ks p (Suc n) =
     (case getNextKey ks p of
        Inl e \<Rightarrow> []
      | Inr (key, p') \<Rightarrow> (p, key) # keyCalls ks p' n)"

definition selectedIndices :: "jsstring list \<Rightarrow> nat \<Rightarrow> nat \<Rightarrow> nat list" where
  "selectedIndices ks p n = map fst (keyCalls ks p n)"

definition selectedKeys :: "jsstring list \<Rightarrow> nat \<Rightarrow> nat \<Rightarrow> jsstring option list" where
  "selectedKeys ks p n = map snd (keyCalls ks p n)"

text \<open>
  Token counts are the non-negative integers the providers report. The source keeps them in
  numbers and adds them up with \<open>+=\<close>; an integer up to \<open>2 ^ 53\<close> is a number and a sum of
  such integers that stays up to \<open>2 ^ 53\<close> is exact, so the counts are natural numbers here
  and the statements about costs ask for accumulated counts up to \<open>2 ^ 53\<close>.

  The prices are decimal literals: \<open>0.10\<close> and \<open>0.40\<close> denote the numbers nearest to \<open>1 / 10\<close>
  and \<open>2 / 5\<close>, and \<open>6.00\<close> is \<open>6\<close>. \<open>calculateCost\<close> performs two divisions, three
  multiplications and one addition, each rounded.
\<close>

record TokenUsage =
  promptTokens :: nat
  completionTokens :: nat
  totalTokens :: nat

definition PRICE_INPUT_USD :: number where "PRICE_INPUT_USD = fl (10 / 100)"
definition PRICE_OUTPUT_USD :: number where "PRICE_OUTPUT_USD = fl (40 / 100)"
definition USD_TO_BRL :: number where "USD_TO_BRL = fl (600 / 100)"
definition MAX_VERIFICATION_ATTEMPTS :: nat where "MAX_VERIFICATION_ATTEMPTS = 3"

definition calculateCost :: "TokenUsage \<Rightarrow> number" where
  "calculateCost usage =
     (let inputCost = fmul (fdiv (of_nat (promptTokens usage)) 1000000) PRICE_INPUT_USD;
          outputCost = fmul (fdiv (of_nat (completionTokens usage)) 1000000) PRICE_OUTPUT_USD
      in fmul (fadd inputCost outputCost) USD_TO_BRL)"

text \<open>The strategy \<open>'openrouter'\<close> of the source is \<open>pool_only\<close> (the provider has the name).\<close>

datatype provider = google | openrouter
datatype strategy = hybrid | pool_only

record RepairAttempt =
  attemptNumber :: nat
  attemptProvider :: provider
  prompt :: jsstring
  rawResponse :: jsstring
  cleanedHtml :: jsstring
  validationErrors :: "string list"
  attemptUsage :: TokenUsage

text \<open>
  \<open>RepairLog\<close> and \<open>RepairResult\<close> without the fields copied from the arguments
  (\<open>issueId\<close>, \<open>originalHtml\<close>, \<open>qid\<close>, \<open>field\<close>) and the clock reading \<open>timestamp\<close>. A field the
  source leaves out of the returned object is \<open>None\<close>.
\<close>

record RepairLog =
  attempts :: "RepairAttempt list"
  finalResult :: string
  totalCostBRL :: number

record RepairResult =
  repairedHtml :: jsstring
  success :: bool
  error :: "string option"
  provider :: "provider option"
  usage :: "TokenUsage option"
  costBRL :: "number option"
  log :: "RepairLog option"

record Validation =
  valid :: bool
  errors :: "string list"

text \<open>\<open>/<table[\s\S]*<\/table>/i\<close> and \<open>/<tr[\s\S]*<\/tr>/i\<close>.\<close>

definition RX_TABLE_SPAN :: rx where
  "RX_TABLE_SPAN = Seqs [StrCI ''<table'', Star rxAny, StrCI ''</table>'']"

definition RX_TR_SPAN :: rx where
  "RX_TR_SPAN = Seqs [StrCI ''<tr'', Star rxAny, StrCI ''</tr>'']"

definition verifyRepairedTable :: "jsstring \<Rightarrow> Validation" where
  "verifyRepairedTable html =
     (let hasTable = rxtest False RX_TABLE_SPAN html in
      if \<not> hasTable then \<lparr>valid = False, errors = [''Output does not contain a valid <table> tag'']\<rparr>
      else
        let hasRows = rxtest False RX_TR_SPAN html in
        if \<not> hasRows then \<lparr>valid = False, errors = [''Table has no rows'']\<rparr>
        else \<lparr>valid = True, errors = []\<rparr>)"

text \<open>The clean-up of the raw response: fences removed, trimmed, the table span extracted.\<close>

definition cleanupOutput :: "jsstring \<Rightarrow> jsstring" where
  "cleanupOutput raw =
     (let repairedHtml = trim (removeAll (js ''```'') (removeAll (js ''```html'') raw)) in
      case rxmatch False RX_TABLE_SPAN repairedHtml of
        Some m \<Rightarrow> m
      | None \<Rightarrow> repairedHtml)"

text \<open>
  The two provider calls are the outside world. A call either returns a text with its token
  usage, or throws; \<open>callOpenRouter\<close> throws \<open>KEY_EXHAUSTED\<close> on status 401 or 402 and another
  error otherwise. The world answers the \<open>n\<close>-th call of an invocation as a function of the
  prompt and, for the pool, of the key.
\<close>

datatype callOutcome = KeyExhausted | CallError string | CallReturns jsstring TokenUsage

record world =
  googleCall :: "nat \<Rightarrow> jsstring \<Rightarrow> callOutcome"
  openRouterCall :: "nat \<Rightarrow> jsstring \<Rightarrow> jsstring option \<Rightarrow> callOutcome"

text \<open>
  The local variables of \<open>repairTableWithGemini\<close> (\<open>attemptsFailed\<close> is the source's \<open>attempts\<close>,
  which counts failed validations) and the module variable \<open>keyPointer\<close>. Two counters are
  added for stating properties and are read by nothing: \<open>providerCalls\<close> counts the provider
  calls issued and indexes the world, \<open>roundsStarted\<close> counts the entries into the body of the
  verification loop, that is, the attempts made.
\<close>

record repairState =
  attemptsFailed :: nat
  historyUsage :: TokenUsage
  providerUsed :: provider
  attemptLogs :: "RepairAttempt list"
  currentPrompt :: jsstring
  keyPointer :: nat
  providerCalls :: nat
  roundsStarted :: nat

text \<open>
  The inner loop over the pool: at most three keys are tried. \<open>getNextKey\<close> is called outside
  the inner \<open>try\<close>, so its error leaves the loop; the handler of a failed call reads
  \<open>key.slice\<close> only for \<open>KEY_EXHAUSTED\<close>, which throws when the key is \<open>undefined\<close>. The
  pause of 500 ms after a failed key is not represented.
\<close>

function poolCall :: "world \<Rightarrow> jsstring list \<Rightarrow> jsstring \<Rightarrow> nat \<Rightarrow> nat \<Rightarrow> nat
                       \<Rightarrow> (string + (jsstring \<times> TokenUsage)) \<times> nat \<times> nat" where
  "poolCall w keys pr keyRetries kp calls =
     (if keyRetries < 3 then
        (case getNextKey keys kp of
           Inl (Error msg) \<Rightarrow> (Inl msg, kp, calls)
         | Inr (key, kp') \<Rightarrow>
             (case openRouterCall w calls pr key of
                CallReturns text u \<Rightarrow> (Inr (text, u), kp', Suc calls)
              | KeyExhausted \<Rightarrow>
                  (case key of
                     None \<Rightarrow> (Inl ''Cannot read properties of undefined (reading 'slice')'', kp', Suc calls)
                   | Some k \<Rightarrow> poolCall w keys pr (Suc keyRetries) kp' (Suc calls))
              | CallError m \<Rightarrow> poolCall w keys pr (Suc keyRetries) kp' (Suc calls)))
      else (Inl ''All OpenRouter keys failed.'', kp, calls))"
  by pat_completeness auto
termination
  by (relation "measure (\<lambda>(w, keys, pr, keyRetries, kp, calls). 3 - keyRetries)") auto

definition zeroUsage :: TokenUsage where
  "zeroUsage = \<lparr>promptTokens = 0, completionTokens = 0, totalTokens = 0\<rparr>"

definition addUsage :: "TokenUsage \<Rightarrow> TokenUsage \<Rightarrow> TokenUsage" where
  "addUsage h u = \<lparr>promptTokens = promptTokens h + promptTokens u,
                  completionTokens = completionTokens h + completionTokens u,
                  totalTokens = totalTokens h + totalTokens u\<rparr>"

definition costFor :: "provider \<Rightarrow> TokenUsage \<Rightarrow> number" where
  "costFor p h = (if p = openrouter then calculateCost h else 0)"

text \<open>The object returned by the outer \<open>catch\<close>: no provider, usage, cost or log.\<close>

definition failureResult :: "string \<Rightarrow> RepairResult" where
  "failureResult msg =
     \<lparr>repairedHtml = [], success = False, error = Some msg, provider = None, usage = None,
      costBRL = None, log = None\<rparr>"

text \<open>The object returned after the loop: the log, but no provider, usage or cost.\<close>

definition exhaustedResult :: "repairState \<Rightarrow> RepairResult" where
  "exhaustedResult st =
     \<lparr>repairedHtml = [], success = False, error = Some ''Validation failed after 3 attempts.'',
      provider = None, usage = None, costBRL = None,
      log = Some \<lparr>attempts = attemptLogs st, finalResult = ''failed'',
                  totalCostBRL = costFor (providerUsed st) (historyUsage st)\<rparr>\<rparr>"

text \<open>
  The rest of the loop body once a provider has answered: clean-up, accumulation of the usage,
  validation, the log entry, then either the successful return or the next prompt.
\<close>

definition afterCall :: "(jsstring \<Rightarrow> string list \<Rightarrow> jsstring) \<Rightarrow> repairState
     \<Rightarrow> jsstring \<times> TokenUsage \<Rightarrow> RepairResult option \<times> repairState" where
  "afterCall buildRetryPrompt st got =
    (let repaired = cleanupOutput (fst got);
         hist = addUsage (historyUsage st) (snd got);
         validation = verifyRepairedTable repaired;
         logs = attemptLogs st @
                [\<lparr>attemptNumber = attemptsFailed st + 1, attemptProvider = providerUsed st,
                  prompt = currentPrompt st, rawResponse = repaired, cleanedHtml = repaired,
                  validationErrors = errors validation, attemptUsage = snd got\<rparr>];
         st2 = st\<lparr>historyUsage := hist, attemptLogs := logs\<rparr>
     in
     if valid validation then
       (Some \<lparr>repairedHtml = repaired, success = True, error = None,
              provider = Some (providerUsed st2), usage = Some hist,
              costBRL = Some (costFor (providerUsed st2) hist),
              log = Some \<lparr>attempts = logs, finalResult = ''success'',
                          totalCostBRL = costFor (providerUsed st2) hist\<rparr>\<rparr>, st2)
     else
       (let n = Suc (attemptsFailed st2) in
        (None, st2\<lparr>attemptsFailed := n,
                   currentPrompt := (if n < MAX_VERIFICATION_ATTEMPTS
                                     then buildRetryPrompt repaired (errors validation)
                                     else currentPrompt st2)\<rparr>)))"

text \<open>The call of the primary provider: first attempt of the hybrid strategy only.\<close>

definition googleStep :: "world \<Rightarrow> bool \<Rightarrow> strategy \<Rightarrow> repairState
     \<Rightarrow> repairState \<times> (jsstring \<times> TokenUsage)" where
  "googleStep w ai strat st =
     (if strat = hybrid \<and> ai \<and> attemptsFailed st = 0 \<and> providerUsed st = google then
        (case googleCall w (providerCalls st) (currentPrompt st) of
           CallReturns text u \<Rightarrow> (st\<lparr>providerCalls := Suc (providerCalls st)\<rparr>, (text, u))
         | _ \<Rightarrow> (st\<lparr>providerUsed := openrouter, providerCalls := Suc (providerCalls st)\<rparr>,
                 ([], zeroUsage)))
      else (st, ([], zeroUsage)))"

text \<open>
  One pass through the loop body. \<open>Some r\<close> is a \<open>return r\<close>; \<open>None\<close> goes back to the loop
  condition. \<open>ai\<close> tells whether the primary provider is configured.
\<close>

definition attemptRound :: "world \<Rightarrow> jsstring list \<Rightarrow> bool \<Rightarrow> strategy
     \<Rightarrow> (jsstring \<Rightarrow> string list \<Rightarrow> jsstring) \<Rightarrow> repairState
     \<Rightarrow> RepairResult option \<times> repairState" where
  "attemptRound w keys ai strat buildRetryPrompt st =
     (case googleStep w ai strat (st\<lparr>roundsStarted := Suc (roundsStarted st)\<rparr>) of
        (st1, got0) \<Rightarrow>
          if providerUsed st1 = openrouter \<or> \<not> ai \<or> 0 < attemptsFailed st1 then
            (case poolCall w keys (currentPrompt st1) 0 (keyPointer st1) (providerCalls st1) of
               (Inl msg, kp, calls) \<Rightarrow>
                 (Some (failureResult msg),
                  st1\<lparr>providerUsed := openrouter, keyPointer := kp, providerCalls := calls\<rparr>)
             | (Inr got, kp, calls) \<Rightarrow>
                 afterCall buildRetryPrompt
                   (st1\<lparr>providerUsed := openrouter, keyPointer := kp, providerCalls := calls\<rparr>) got)
          else afterCall buildRetryPrompt st1 got0)"

function repairLoop :: "world \<Rightarrow> jsstring list \<Rightarrow> bool \<Rightarrow> strategy
     \<Rightarrow> (jsstring \<Rightarrow> string list \<Rightarrow> jsstring) \<Rightarrow> repairState \<Rightarrow> RepairResult \<times> repairState" where
  "repairLoop w keys ai strat buildRetryPrompt st =
    (if attemptsFailed st < MAX_VERIFICATION_ATTEMPTS then
       (case attemptRound w keys ai strat buildRetryPrompt st of
          (Some r, st') \<Rightarrow> (r, st')
        | (None, st') \<Rightarrow> repairLoop w keys ai strat buildRetryPrompt st')
     else (exhaustedResult st, st))"
  by pat_completeness auto
termination
  apply (relation "measure (\<lambda>(w, keys, ai, strat, b, st). MAX_VERIFICATION_ATTEMPTS - attemptsFailed st)")
   apply simp
  apply (auto simp: attemptRound_def afterCall_def googleStep_def Let_def
              split: if_splits callOutcome.splits prod.splits sum.splits)
  done

text \<open>
  \<open>repairTableWithGemini\<close>. The prompts do not influence the control flow: the first prompt
  (\<open>buildRepairPrompt\<close> applied to the analysed table) and \<open>buildRetryPrompt\<close> (with the
  table-dependent arguments fixed) are taken as they are. \<open>keyPointer0\<close> is the pointer of the
  pool when the invocation starts.
\<close>

definition repairTableWithGemini :: "world \<Rightarrow> jsstring list \<Rightarrow> bool \<Rightarrow> nat \<Rightarrow> jsstring
     \<Rightarrow> (jsstring \<Rightarrow> string list \<Rightarrow> jsstring) \<Rightarrow> strategy \<Rightarrow> RepairResult \<times> repairState" where
  "repairTableWithGemini w keys ai keyPointer0 initialPrompt buildRetryPrompt strat =
     repairLoop w keys ai strat buildRetryPrompt
       \<lparr>attemptsFailed = 0, historyUsage = zeroUsage,
        providerUsed = (if strat = pool_only then openrouter else google),
        attemptLogs = [], currentPrompt = initialPrompt, keyPointer = keyPointer0,
        providerCalls = 0, roundsStarted = 0\<rparr>"

text \<open>Quantities of an attempt log: the usage summed over its entries, and its failed entries.\<close>

definition sumUsage :: "RepairAttempt list \<Rightarrow> TokenUsage" where
  "sumUsage as = \<lparr>promptTokens = sum_list (map (promptTokens \<circ> attemptUsage) as),
                  completionTokens = sum_list (map (completionTokens \<circ> attemptUsage) as),
                  totalTokens = sum_list (map (totalTokens \<circ> attemptUsage) as)\<rparr>"

definition failedAttempts :: "RepairAttempt list \<Rightarrow> nat" where
  "failedAttempts as = length (filter (\<lambda>a. validationErrors a \<noteq> []) as)"

text \<open>The invariant of the verification loop, and what a pass and the whole loop establish.\<close>

definition loopInv :: "repairState \<Rightarrow> bool" where
  "loopInv st \<longleftrightarrow>
     roundsStarted st = length (attemptLogs st) \<and> attemptsFailed st = length (attemptLogs st)
     \<and> historyUsage st = sumUsage (attemptLogs st)
     \<and> failedAttempts (attemptLogs st) = length (attemptLogs st)"

definition roundPost :: "repairState \<Rightarrow> RepairResult \<Rightarrow> repairState \<Rightarrow> bool" where
  "roundPost st r st' \<longleftrightarrow>
     roundsStarted st' = Suc (roundsStarted st) \<and>
     (if success r
      then (\<exists>a. attemptLogs st' = attemptLogs st @ [a] \<and> validationErrors a = []
              \<and> log r = Some \<lparr>attempts = attemptLogs st', finalResult = ''success'',
                                totalCostBRL = costFor (providerUsed st') (sumUsage (attemptLogs st'))\<rparr>
              \<and> provider r = Some (providerUsed st')
              \<and> usage r = Some (sumUsage (attemptLogs st'))
              \<and> costBRL r = Some (costFor (providerUsed st') (sumUsage (attemptLogs st'))))
      else log r = None \<and> attemptLogs st' = attemptLogs st \<and> error r \<noteq> None)"

definition loopPost :: "RepairResult \<Rightarrow> repairState \<Rightarrow> bool" where
  "loopPost r st' \<longleftrightarrow>
     roundsStarted st' \<le> 3 \<and>
     (case log r of
        Some l \<Rightarrow> length (attempts l) = roundsStarted st'
                  \<and> (if success r
                      then Suc (failedAttempts (attempts l)) = roundsStarted st'
                         \<and> provider r = Some (providerUsed st')
                         \<and> usage r = Some (sumUsage (attempts l))
                         \<and> costBRL r = Some (costFor (providerUsed st') (sumUsage (attempts l)))
                      else failedAttempts (attempts l) = 3 \<and> roundsStarted st' = 3)
      | None \<Rightarrow> \<not> success r \<and> error r \<noteq> None
                \<and> roundsStarted st' = Suc (length (attemptLogs st')))"

text \<open>Worlds for concrete runs: a pool that always fails, and one that returns a table.\<close>

definition worldPoolDown :: world where
  "worldPoolDown = \<lparr>googleCall = (\<lambda>n p. CallError ''unavailable''),
                    openRouterCall = (\<lambda>n p k. CallError ''OpenRouter API Error: Bad Gateway'')\<rparr>"


definition worldNoRows :: world where
  "worldNoRows = \<lparr>googleCall = (\<lambda>n p. CallReturns (js ''<table></table>'')
          \<lparr>promptTokens = 10, completionTokens = 5, totalTokens = 15\<rparr>),
      openRouterCall = (\<lambda>n p k. CallReturns (js ''<table></table>'')
          \<lparr>promptTokens = 10, completionTokens = 5, totalTokens = 15\<rparr>)\<rparr>"


section \<open>The worker's failure branch and the queue's backoff (repairWorker, queue)\<close>

datatype TaskStatus = PENDING | PROCESSING | COMPLETED | RETRY | FAILED | CANCELLED

text \<open>
  The columns of a task that the worker writes on the way to a retry. \<open>taskAttempts\<close> is the
  column \<open>attempts\<close>, and \<open>nextRetryAt\<close> is a \<open>Date\<close>, kept as milliseconds since the epoch.
  \<open>updateTaskStatus\<close> writes the status and the extras it is given and leaves the other
  columns as they are.
\<close>

record task =
  status :: TaskStatus
  taskAttempts :: nat
  maxAttempts :: nat
  lastError :: "string option"
  nextRetryAt :: "nat option"

datatype jobResult = JobReturns bool | JobThrows string

text \<open>
  The data of a job. Of the payload the worker's failure branch reads \<open>attempt\<close> only. The
  upload route builds the payload of every task with \<open>attempt: 0\<close> and \<open>addBulkRepairJobs\<close>
  hands it to the queue as the job's data. Nothing in the repository writes the data of a job
  afterwards (the worker reads \<open>job.data\<close> and never calls an update on it), so the queue
  delivers the job with the same data every time.
\<close>

record JobPayload =
  attempt :: nat

definition enqueuedPayload :: JobPayload where
  "enqueuedPayload = \<lparr>attempt = 0\<rparr>"

text \<open>The first statement of the callback: the task goes to \<open>PROCESSING\<close>.\<close>

definition onPickup :: "JobPayload \<Rightarrow> task \<Rightarrow> task" where
  "onPickup job t = t\<lparr>status := PROCESSING, taskAttempts := attempt job + 1\<rparr>"

text \<open>
  The \<open>else\<close> branch of the worker callback for a result with \<open>success = false\<close>. \<open>now\<close> is
  \<open>Date.now()\<close>, \<open>err\<close> is \<open>result.error\<close>, and \<open>task?.maxAttempts || 3\<close> reads \<open>3\<close> for a task
  without the column. The \<open>throw\<close> of the retry case is inside the callback's \<open>try\<close>: the
  \<open>catch\<close> writes \<open>RETRY\<close> with the message again and rethrows, which hands the job back to
  the queue.
\<close>

definition onRepairFailed :: "nat \<Rightarrow> JobPayload \<Rightarrow> task \<Rightarrow> string option \<Rightarrow> task \<times> jobResult" where
  "onRepairFailed now job t err =
     (let maxAttempts = (if maxAttempts t = 0 then 3 else maxAttempts t) in
      if attempt job + 1 < maxAttempts then
        (let t1 = t\<lparr>status := RETRY, lastError := err,
                     nextRetryAt := Some (now + 2 ^ (attempt job + 1) * 5000)\<rparr>;
             msg = (case err of None \<Rightarrow> ''Repair failed''
                    | Some e \<Rightarrow> if e = [] then ''Repair failed'' else e)
         in (t1\<lparr>status := RETRY, lastError := Some msg\<rparr>, JobThrows msg))
      else (t\<lparr>status := FAILED, lastError := err\<rparr>, JobReturns False))"

text \<open>
  The options the queue is created with (\<open>defaultJobOptions\<close>): \<open>attempts\<close> is
  \<open>env.MAX_RETRY_ATTEMPTS\<close>, which defaults to 3, and the backoff is exponential from 5000 ms.
  What the queue does with them is the queue library's part, not this repository's: a job
  whose callback throws has failed one more delivery; while the failed deliveries are fewer
  than \<open>attempts\<close> the job is delivered again after the backoff, and then it is moved to the
  failed jobs. The built-in \<open>exponential\<close> strategy waits \<open>2 ^ (attemptsMade - 1) * delay\<close>
  after the \<open>attemptsMade\<close>-th failed delivery, the schedule the source's comment on the
  option spells out (\<open>5s, 10s, 20s, 40s...\<close>).
\<close>

record backoffOptions =
  backoffType :: string
  backoffDelay :: nat

record jobOptions =
  queueAttempts :: nat
  backoff :: backoffOptions

definition repairQueueBackoff :: backoffOptions where
  "repairQueueBackoff = \<lparr>backoffType = ''exponential'', backoffDelay = 5000\<rparr>"

definition repairQueueOptions :: "nat \<Rightarrow> jobOptions" where
  "repairQueueOptions MAX_RETRY_ATTEMPTS =
     \<lparr>queueAttempts = MAX_RETRY_ATTEMPTS, backoff = repairQueueBackoff\<rparr>"

definition queueRedeliveryDelay :: "backoffOptions \<Rightarrow> nat \<Rightarrow> nat" where
  "queueRedeliveryDelay opts attemptsMade =
     (if backoffType opts = ''exponential'' then 2 ^ (attemptsMade - 1) * backoffDelay opts
      else backoffDelay opts)"

datatype queueAction = Redeliver nat | MoveToFailed | MoveToCompleted

definition afterDelivery :: "jobOptions \<Rightarrow> nat \<Rightarrow> jobResult \<Rightarrow> queueAction" where
  "afterDelivery opts attemptsMade res =
     (case res of
        JobReturns b \<Rightarrow> MoveToCompleted
      | JobThrows msg \<Rightarrow>
          if attemptsMade + 1 < queueAttempts opts
          then Redeliver (queueRedeliveryDelay (backoff opts) (attemptsMade + 1))
          else MoveToFailed)"

text \<open>
  The life of a job whose repair fails at every delivery: what the worker leaves in the task
  and what the queue does next, delivery after delivery. \<open>attemptsMade\<close> counts the failed
  deliveries so far and \<open>clock i\<close> is \<open>Date.now()\<close> in the failure branch of delivery \<open>i\<close>.
\<close>

function failingDeliveries :: "jobOptions \<Rightarrow> JobPayload \<Rightarrow> string option \<Rightarrow> (nat \<Rightarrow> nat)
     \<Rightarrow> task \<Rightarrow> nat \<Rightarrow> (task \<times> queueAction) list" where
  "failingDeliveries opts job err clock t attemptsMade =
     (case onRepairFailed (clock attemptsMade) job (onPickup job t) err of
        (t', res) \<Rightarrow>
          (case afterDelivery opts attemptsMade res of
             Redeliver d \<Rightarrow>
               (t', Redeliver d) # failingDeliveries opts job err clock t' (Suc attemptsMade)
           | MoveToFailed \<Rightarrow> [(t', MoveToFailed)]
           | MoveToCompleted \<Rightarrow> [(t', MoveToCompleted)]))"
  by pat_completeness auto
termination
  apply (relation "measure (\<lambda>(opts, job, err, clock, t, attemptsMade). queueAttempts opts - attemptsMade)")
   apply simp
  apply (auto simp: afterDelivery_def split: jobResult.splits if_splits)
  done

text \<open>A task as \<open>createTask\<close> leaves it, with the three attempts of the worker's default.\<close>

definition createdTask :: task where
  "createdTask = \<lparr>status = PENDING, taskAttempts = 0, maxAttempts = 3, lastError = None,
                   nextRetryAt = None\<rparr>"

text \<open>What the statements below read of a delivery.\<close>

definition deliveryKey :: "task \<times> queueAction \<Rightarrow> TaskStatus \<times> nat \<times> nat option \<times> queueAction" where
  "deliveryKey d = (status (fst d), taskAttempts (fst d), nextRetryAt (fst d), snd d)"


section \<open>The document tree\<close>

text \<open>
  The audit reads the tree that the HTML parser builds. An element has its local name in lower
  case (\<open>tagName\<close> is its upper-case form), its attributes in source order and its child nodes;
  a text node has its data. Comment nodes are left out: they are no elements and contribute
  nothing to \<open>textContent\<close>.
\<close>

datatype node = Element string "(string \<times> jsstring) list" "node list" | Text jsstring

fun tagOf :: "node \<Rightarrow> string" where
  "tagOf (Element t as cs) = t"
| "tagOf (Text s) = []"

fun childNodes :: "node \<Rightarrow> node list" where
  "childNodes (Element t as cs) = cs"
| "childNodes (Text s) = []"

fun isElement :: "node \<Rightarrow> bool" where
  "isElement (Element t as cs) = True"
| "isElement (Text s) = False"

text \<open>\<open>el.getAttribute(name)\<close>: the first attribute of that name, \<open>null\<close> when there is none.\<close>

fun getAttribute :: "node \<Rightarrow> string \<Rightarrow> jsstring option" where
  "getAttribute (Element t as cs) name = map_of as name"
| "getAttribute (Text s) name = None"

text \<open>\<open>textContent\<close>: the data of all text nodes below the node, in document order.\<close>

primrec textContent :: "node \<Rightarrow> jsstring" and textContents :: "node list \<Rightarrow> jsstring" where
  "textContent (Element t as cs) = textContents cs"
| "textContent (Text s) = s"
| "textContents [] = []"
| "textContents (c # cs) = textContent c @ textContents cs"

text \<open>
  The elements below a node in document order, each with its path (the child indices from the
  node down). A path identifies a node of the tree, as the object identity of the DOM does.
\<close>

primrec below :: "nat list \<Rightarrow> node \<Rightarrow> (nat list \<times> node) list"
  and belowList :: "nat list \<Rightarrow> nat \<Rightarrow> node list \<Rightarrow> (nat list \<times> node) list" where
  "below p (Element t as cs) = belowList p 0 cs"
| "below p (Text s) = []"
| "belowList p i [] = []"
| "belowList p i (c # cs) =
     (if isElement c then [(p @ [i], c)] else []) @ below (p @ [i]) c @ belowList p (Suc i) cs"

text \<open>The node at a path, and the elements on the way to it (its proper ancestors).\<close>

fun nodeAt :: "node \<Rightarrow> nat list \<Rightarrow> node option" where
  "nodeAt n [] = Some n"
| "nodeAt n (i # p) =
     (if i < length (childNodes n) then nodeAt (childNodes n ! i) p else None)"

definition ancestorsOf :: "node \<Rightarrow> nat list \<Rightarrow> node list" where
  "ancestorsOf doc p = List.map_filter (\<lambda>k. nodeAt doc (take k p)) [0..<length p]"

text \<open>
  The selectors the source uses. \<open>Tags ts\<close> is a list of type selectors (\<open>'td, th'\<close>);
  \<open>Inside as ts\<close> is a list of descendant selectors with a common subject (\<open>'td table, th
  table'\<close>: an element named in \<open>ts\<close> with an ancestor named in \<open>as\<close>, the ancestor anywhere in
  the document); \<open>ScopeChild t\<close> is \<open>':scope > t'\<close>; \<open>HasAttr a\<close> is \<open>'[a]'\<close>.
\<close>

datatype selector = Tags "string list" | Inside "string list" "string list" | ScopeChild string
  | HasAttr string

fun matchesSel :: "node \<Rightarrow> nat list \<Rightarrow> selector \<Rightarrow> nat list \<Rightarrow> node \<Rightarrow> bool" where
  "matchesSel doc scope (Tags ts) p e \<longleftrightarrow> tagOf e \<in> set ts"
| "matchesSel doc scope (Inside as ts) p e \<longleftrightarrow>
     tagOf e \<in> set ts \<and> list_ex (\<lambda>a. tagOf a \<in> set as) (ancestorsOf doc p)"
| "matchesSel doc scope (ScopeChild t) p e \<longleftrightarrow> tagOf e = t \<and> length p = Suc (length scope)"
| "matchesSel doc scope (HasAttr a) p e \<longleftrightarrow> getAttribute e a \<noteq> None"

text \<open>
  \<open>scope.querySelectorAll(sel)\<close> and \<open>scope.querySelector(sel)\<close> in the document with root \<open>doc\<close>, the
  scope given by its path: the matching elements below the scope, in document order.
\<close>

definition querySelectorAll :: "node \<Rightarrow> nat list \<Rightarrow> selector \<Rightarrow> (nat list \<times> node) list" where
  "querySelectorAll doc scope sel =
     (case nodeAt doc scope of
        None \<Rightarrow> []
      | Some s \<Rightarrow> filter (\<lambda>(p, e). matchesSel doc scope sel p e) (below scope s))"

definition querySelector :: "node \<Rightarrow> nat list \<Rightarrow> selector \<Rightarrow> (nat list \<times> node) option" where
  "querySelector doc scope sel =
     (case querySelectorAll doc scope sel of [] \<Rightarrow> None | x # xs \<Rightarrow> Some x)"

text \<open>Queries that stay inside one element need no document: the element is the root.\<close>

definition elementsIn :: "node \<Rightarrow> selector \<Rightarrow> node list" where
  "elementsIn e sel = map snd (querySelectorAll e [] sel)"

text \<open>\<open>a.contains(b)\<close>: \<open>b\<close> is \<open>a\<close> or lies below it.\<close>

definition containsNode :: "nat list \<Rightarrow> nat list \<Rightarrow> bool" where
  "containsNode a b \<longleftrightarrow> take (length a) b = a"

text \<open>
  What the platform provides: the parser (\<open>new JSDOM(html).window.document\<close>, given by its
  root element), the serialisers behind \<open>innerHTML\<close> and \<open>outerHTML\<close>, and
  \<open>String.prototype.toLowerCase\<close>. They are parameters of the audit.
\<close>

record platform =
  parse :: "jsstring \<Rightarrow> node"
  innerHTML :: "node \<Rightarrow> jsstring"
  outerHTML :: "node \<Rightarrow> jsstring"
  toLowerCase :: "jsstring \<Rightarrow> jsstring"


section \<open>Audit helpers and the Grid Builder (auditService)\<close>

text \<open>
  \<open>parseInt(v, 10)\<close>: leading white space is skipped, a sign is read, then the longest run of
  decimal digits; without a digit the result is \<open>NaN\<close>, here \<open>None\<close>. The value is the exact
  integer: the rounding of a double beyond \<open>2 ^ 53\<close>, and \<open>Infinity\<close> for a run of more
  than 308 digits, are not represented.
\<close>

definition isDigit :: "nat \<Rightarrow> bool" where
  "isDigit c \<longleftrightarrow> 48 \<le> c \<and> c \<le> 57"

definition digitsValue :: "jsstring \<Rightarrow> nat" where
  "digitsValue ds = foldl (\<lambda>acc c. 10 * acc + (c - 48)) 0 ds"

definition parseInt10 :: "jsstring \<Rightarrow> int option" where
  "parseInt10 v =
     (let s = dropWhile isWhiteSpace v;
          neg = (s \<noteq> [] \<and> hd s = 45);
          s' = (if s \<noteq> [] \<and> (hd s = 45 \<or> hd s = 43) then tl s else s);
          ds = takeWhile isDigit s'
      in if ds = [] then None
         else Some (if neg then - int (digitsValue ds) else int (digitsValue ds)))"

text \<open>\<open>safeInt(v, fallback = 1)\<close>: \<open>v\<close> is the attribute value or \<open>null\<close>.\<close>

definition safeInt :: "jsstring option \<Rightarrow> nat" where
  "safeInt v =
     (case parseInt10 (case v of None \<Rightarrow> [] | Some s \<Rightarrow> s) of
        None \<Rightarrow> 1
      | Some n \<Rightarrow> if n < 1 then 1 else nat n)"

definition getText :: "node \<Rightarrow> jsstring" where
  "getText el = trim (textContent el)"

text \<open>\<open>/<br\s*\/?>/i\<close>\<close>

definition RX_BR :: rx where
  "RX_BR = Seqs [StrCI ''<br'', Star rxS, Opt (Chr CHR ''/''), Chr CHR ''>'']"

definition mediaTags :: "string list" where
  "mediaTags = [''img'', ''svg'', ''canvas'', ''video'', ''audio'', ''iframe'', ''math'']"

definition cellHasContent :: "platform \<Rightarrow> node \<Rightarrow> bool" where
  "cellHasContent pf cell =
     (let text = trim (textContent cell) in
      if text \<noteq> [] then True
      else if elementsIn cell (Tags mediaTags) \<noteq> [] then True
      else if rxtest False RX_BR (innerHTML pf cell) then True
      else False)"

text \<open>A cell of the grid; the header row has row \<open>-1\<close>.\<close>

record GridCell =
  el :: node
  row :: int
  col :: nat
  colspan :: nat
  rowspan :: nat

record TableGrid =
  expectedCols :: nat
  headerCells :: "GridCell list"
  bodyCells :: "GridCell list"
  rowWidths :: "nat list"
  colHasContent :: "bool list"

definition computeExpectedColsFromHeader :: "node list \<Rightarrow> nat" where
  "computeExpectedColsFromHeader headerCellEls =
     (if length headerCellEls = 0 then 0
      else foldl (\<lambda>acc c. acc + safeInt (getAttribute c ''colspan'')) 0 headerCellEls)"

text \<open>
  \<open>pendingRowspans\<close> is a JavaScript array written at arbitrary indices. The source only asks
  whether an entry is a positive number, so a hole and an index beyond the length, which read
  as \<open>undefined\<close>, are both kept as \<open>0\<close>. Writing beyond the length extends the array.
\<close>

definition pendingAt :: "nat list \<Rightarrow> nat \<Rightarrow> nat" where
  "pendingAt pendingRowspans c = (if c < length pendingRowspans then pendingRowspans ! c else 0)"

definition setPending :: "nat list \<Rightarrow> nat \<Rightarrow> nat \<Rightarrow> nat list" where
  "setPending pendingRowspans c v =
     (pendingRowspans @ replicate (Suc c - length pendingRowspans) 0)[c := v]"

function nextFreeCol :: "nat list \<Rightarrow> nat \<Rightarrow> nat" where
  "nextFreeCol pendingRowspans c =
     (if c < length pendingRowspans \<and> 0 < pendingRowspans ! c
      then nextFreeCol pendingRowspans (Suc c) else c)"
  by pat_completeness auto
termination
  by (relation "measure (\<lambda>(pendingRowspans, c). length pendingRowspans - c)") auto

declare nextFreeCol.simps [simp del]

definition computeRowWidth :: "nat list \<Rightarrow> nat \<Rightarrow> nat" where
  "computeRowWidth pendingRowspans placedRightEdge =
     foldl (\<lambda>right c. if 0 < pendingRowspans ! c \<and> right < c + 1 then c + 1 else right)
       placedRightEdge [0..<length pendingRowspans]"

text \<open>The header cells: columns advance by the colspans.\<close>

fun placeHeader :: "nat \<Rightarrow> node list \<Rightarrow> GridCell list" where
  "placeHeader c [] = []"
| "placeHeader c (cell # cells) =
     (let cs = safeInt (getAttribute cell ''colspan'');
          rs = safeInt (getAttribute cell ''rowspan'')
      in \<lparr>el = cell, row = - 1, col = c, colspan = cs, rowspan = rs\<rparr>
         # placeHeader (c + cs) cells)"

text \<open>
  The variables that the loop over the body rows and the loop over a row's cells update. In
  the definitions below \<open>c\<close>, \<open>cs\<close> and \<open>rs\<close> are the source's \<open>col\<close>, \<open>colspan\<close> and \<open>rowspan\<close>.
\<close>

record gridState =
  pendingRowspans :: "nat list"
  bodyCellsAcc :: "GridCell list"
  colHasContentAcc :: "bool list"
  rowWidthsAcc :: "nat list"

record rowState =
  colCursor :: nat
  placedRightEdge :: nat
  grid :: gridState

text \<open>Marking \<open>colspan\<close> columns from \<open>col\<close> as having content, growing the array when needed.\<close>

definition markContent :: "bool list \<Rightarrow> nat \<Rightarrow> nat \<Rightarrow> bool list" where
  "markContent chc c cs =
     (let needed = c + cs;
          grown = (if length chc < needed then chc @ replicate (needed - length chc) False else chc)
      in foldl (\<lambda>a i. a[c + i := True]) grown [0..<cs])"

definition reserveRows :: "nat list \<Rightarrow> nat \<Rightarrow> nat \<Rightarrow> nat \<Rightarrow> nat list" where
  "reserveRows pending c cs rs =
     (if 1 < rs
      then foldl (\<lambda>pr i. setPending pr (c + i) (max (pendingAt pr (c + i)) (rs - 1)))
             pending [0..<cs]
      else pending)"

text \<open>The body of the loop over the cells of body row \<open>rIdx\<close>.\<close>

definition placeCell :: "platform \<Rightarrow> nat \<Rightarrow> rowState \<Rightarrow> node \<Rightarrow> rowState" where
  "placeCell pf rIdx st cell =
     (let g = grid st;
          c = nextFreeCol (pendingRowspans g) (colCursor st);
          cs = safeInt (getAttribute cell ''colspan'');
          rs = safeInt (getAttribute cell ''rowspan'');
          cells = bodyCellsAcc g @
                  [\<lparr>el = cell, row = int rIdx, col = c, colspan = cs, rowspan = rs\<rparr>];
          chc = (if cellHasContent pf cell then markContent (colHasContentAcc g) c cs
                 else colHasContentAcc g);
          pending = reserveRows (pendingRowspans g) c cs rs;
          c' = c + cs
      in \<lparr>colCursor = c', placedRightEdge = max (placedRightEdge st) c',
          grid = g\<lparr>pendingRowspans := pending, bodyCellsAcc := cells, colHasContentAcc := chc\<rparr>\<rparr>)"

text \<open>
  The body of the loop over the body rows: the cells are placed, the row width is recorded,
  then every positive pending counter is decremented.
\<close>

definition placeRow :: "platform \<Rightarrow> gridState \<Rightarrow> nat \<times> node \<Rightarrow> gridState" where
  "placeRow pf g r =
     (let rIdx = fst r;
          cells = elementsIn (snd r) (Tags [''td'', ''th'']);
          st = foldl (placeCell pf rIdx) \<lparr>colCursor = 0, placedRightEdge = 0, grid = g\<rparr> cells;
          g1 = grid st;
          width = computeRowWidth (pendingRowspans g1) (placedRightEdge st)
      in g1\<lparr>pendingRowspans := map (\<lambda>n. if 0 < n then n - 1 else n) (pendingRowspans g1),
             rowWidthsAcc := (rowWidthsAcc g1)[rIdx := width]\<rparr>)"

definition buildGrid :: "platform \<Rightarrow> node option \<Rightarrow> node list \<Rightarrow> TableGrid" where
  "buildGrid pf headerRowEl bodyRowEls =
     (let headerRowCellsEls =
            (case headerRowEl of None \<Rightarrow> [] | Some h \<Rightarrow> elementsIn h (Tags [''th'', ''td'']));
          expected = computeExpectedColsFromHeader headerRowCellsEls;
          hcells = (case headerRowEl of None \<Rightarrow> [] | Some h \<Rightarrow> placeHeader 0 headerRowCellsEls);
          g = foldl (placeRow pf)
                \<lparr>pendingRowspans = [], bodyCellsAcc = [],
                 colHasContentAcc = replicate (max expected 1) False,
                 rowWidthsAcc = replicate (length bodyRowEls) 0\<rparr>
                (zip [0..<length bodyRowEls] bodyRowEls);
          derivedExpected = (if 0 < expected then expected else foldl max 0 (rowWidthsAcc g));
          finalWidth = max derivedExpected (length (colHasContentAcc g))
      in \<lparr>expectedCols = derivedExpected, headerCells = hcells, bodyCells = bodyCellsAcc g,
          rowWidths = rowWidthsAcc g,
          colHasContent = colHasContentAcc g @ replicate (finalWidth - length (colHasContentAcc g)) False\<rparr>)"


section \<open>Issues and the rules of the Issue Detector (auditService)\<close>

text \<open>
  \<open>checkLatexBalance\<close>. The expressions are \<open>/^[RU]?\$\s*[\d.,]/\<close>, \<open>/R\$/\<close>,
  \<open>/^\$[^$]*\\[a-zA-Z]/\<close> and \<open>/\\(frac|sqrt|...|text)\{/\<close>; \<open>CHR 0x5C\<close> is the backslash and
  code unit 36 the dollar sign.
\<close>

record LatexCheck =
  broken :: bool
  reason :: string

definition RX_CURRENCY_PREFIX :: rx where
  "RX_CURRENCY_PREFIX =
     Seqs [Bol, Opt (Cls False [(82, 82), (85, 85)]), Chr CHR ''$'', Star rxS,
           Cls False [(48, 57), (46, 46), (44, 44)]]"

definition RX_REAL_SIGN :: rx where
  "RX_REAL_SIGN = Str ''R$''"

definition RX_DOLLAR_COMMAND :: rx where
  "RX_DOLLAR_COMMAND = Seqs [Bol, Chr CHR ''$'', Star (Cls True [(36, 36)]), Chr (CHR 0x5C), rxAlpha]"

definition RX_LATEX_MACRO :: rx where
  "RX_LATEX_MACRO =
     Seqs [Chr (CHR 0x5C),
           Alts (map Str [''frac'', ''sqrt'', ''vec'', ''sum'', ''int'', ''prod'', ''alpha'', ''beta'',
                          ''gamma'', ''delta'', ''sigma'', ''omega'', ''theta'', ''phi'', ''text'']),
           Chr CHR ''{'']"

definition checkLatexBalance :: "jsstring \<Rightarrow> LatexCheck" where
  "checkLatexBalance text =
    (let trimmed = trim text in
     if length trimmed < 3 then \<lparr>broken = False, reason = ''''\<rparr>
     else if rxtest False RX_CURRENCY_PREFIX trimmed \<or> rxtest False RX_REAL_SIGN trimmed
       then \<lparr>broken = False, reason = ''''\<rparr>
     else if trimmed = js ''{'' \<or> trimmed = js ''}'' \<or> trimmed = js ''$''
             \<or> trimmed = js ''($'' \<or> trimmed = js ''$)''
       then \<lparr>broken = True, reason = ''Orphan symbol''\<rparr>
     else if rxtest False RX_DOLLAR_COMMAND trimmed \<and> length (filter (\<lambda>c. c = 36) trimmed) = 1
       then \<lparr>broken = True, reason = ''Starts with $ but unclosed''\<rparr>
     else if rxtest False RX_LATEX_MACRO trimmed \<and> \<not> includesStr trimmed (js ''$'')
       then \<lparr>broken = True, reason = ''LaTeX command without $''\<rparr>
     else \<lparr>broken = False, reason = ''''\<rparr>)"

text \<open>
  The expressions of the module. Letters outside ASCII are given by their code units, with
  both cases under the \<open>i\<close> flag: \<open>e\<close> acute 233/201, \<open>o\<close> acute 243/211, \<open>c\<close> cedilla 231/199,
  \<open>a\<close> tilde 227/195; the em dash is 8212, the en dash 8211, the ellipsis 8230.
\<close>

definition REGEX_SPLIT_CELL :: rx where
  "REGEX_SPLIT_CELL =
     Seqs [Bol,
           Alt (Seqs [Star rxS, Chr CHR ''$'', Star rxS])
               (Seqs [Star rxS, rxAlpha, Chr CHR ''_'', Opt (Chr CHR ''{''), Plus rxD,
                      Opt (Chr CHR ''}''), Star rxS]),
           Eol]"

definition REGEX_SPLIT_OPERATOR :: rx where
  "REGEX_SPLIT_OPERATOR =
     Seqs [Bol, Star rxS, Cls False [(62, 62), (60, 60), (61, 61), (43, 43), (42, 42), (47, 47)],
           Star rxS, Eol]"

definition REGEX_AI_LAZY :: rx where
  "REGEX_AI_LAZY =
     Seqs [Chr CHR ''['', Star rxDot,
           Alts [StrCI ''incompleta'',
                 Seqs [StrCI ''f'', Cls False [(243, 243), (211, 211)], StrCI ''rmula''],
                 StrCI ''formula'', StrCI ''missing'', StrCI ''erro'', StrCI ''check'',
                 StrCI ''todo'', StrCI ''inserir'', StrCI ''preencher''],
           Star rxDot, Chr CHR '']'']"

definition REGEX_BROKEN_ENTITY :: rx where
  "REGEX_BROKEN_ENTITY =
     Alt (Seqs [Chr CHR ''&'', Plus rxAlpha, NotAhead (Cls False [(97, 122), (65, 90), (59, 59)])])
         (Seqs [Str ''&#'', Star rxD, NotAhead (Cls False [(48, 57), (59, 59)])])"

definition REGEX_MD_TABLE :: rx where
  "REGEX_MD_TABLE =
     Seqs [Bol, Star rxS, Chr CHR ''|'', Plus rxDot, Chr CHR ''|'', Star rxS, Eol,
           Star rxS, Cls False [(10, 10)], Star rxS, Chr CHR ''|'',
           Plus (Cls False (wsRanges @ [(58, 58), (45, 45)])), Chr CHR ''|'', Star rxS, Eol]"

definition REGEX_CONTENT_SWALLOW :: rx where
  "REGEX_CONTENT_SWALLOW =
     Alts [Seqs [StrCI ''Armadilha'', Star rxS, Chr CHR ''#'', Plus rxD],
           Seqs [StrCI ''Estrat'', Cls False [(233, 233), (201, 201)], StrCI ''gia'', Star rxS,
                 Chr CHR ''#'', Plus rxD],
           Seqs [StrCI ''Crit'', Cls False [(233, 233), (201, 201)], StrCI ''rios para Classifica'',
                 Cls False [(231, 231), (199, 199)], Cls False [(227, 227), (195, 195)],
                 StrCI ''o de Sigilo''],
           StrCI ''mnemonica-box'']"

definition REGEX_BROKEN_STYLE_VALUE :: rx where
  "REGEX_BROKEN_STYLE_VALUE =
     Seqs [StrCI ''style'', Star rxS, Chr CHR ''='', Star rxS, Cls False [(34, 34), (39, 39)],
           Star (Cls True [(34, 34), (39, 39)]), Chr CHR ''&'', Alt (ciChr CHR ''l'') (ciChr CHR ''g''),
           StrCI ''t;'']"

text \<open>
  The expressions written in place: \<open>/\|\s*-{3,}/\<close>, \<open>/<table/i\<close>, \<open>/^[\s|(em dash)(en
  dash)-]+$/\<close>, \<open>/\\[a-zA-Z]/\<close>, \<open>/\.{3,}$|(ellipsis)$/\<close>, \<open>/&nbsp;|\u00A0/\<close> and
  \<open>/:\s*;|:\s*$/\<close>.
\<close>

definition RX_MD_SEPARATOR :: rx where
  "RX_MD_SEPARATOR = Seqs [Chr CHR ''|'', Star rxS, Str ''---'', Star (Chr CHR ''-'')]"

definition RX_TABLE_TAG :: rx where
  "RX_TABLE_TAG = StrCI ''<table''"

definition RX_PLACEHOLDER :: rx where
  "RX_PLACEHOLDER =
     Seqs [Bol, Plus (Cls False (wsRanges @ [(124, 124), (8212, 8212), (8211, 8211), (45, 45)])), Eol]"

definition RX_LATEX_COMMAND :: rx where
  "RX_LATEX_COMMAND = Seq (Chr (CHR 0x5C)) rxAlpha"

definition RX_TRUNCATED :: rx where
  "RX_TRUNCATED =
     Alt (Seqs [Str ''...'', Star (Chr CHR ''.''), Eol]) (Seq (Cls False [(8230, 8230)]) Eol)"

definition RX_NBSP :: rx where
  "RX_NBSP = Alt (Str ''&nbsp;'') (Cls False [(160, 160)])"

definition RX_STYLE_SHORTHAND :: rx where
  "RX_STYLE_SHORTHAND =
     Alt (Seqs [Chr CHR '':'', Star rxS, Chr CHR '';'']) (Seqs [Chr CHR '':'', Star rxS, Eol])"

text \<open>A number in a template literal: its decimal digits.\<close>

function showNat :: "nat \<Rightarrow> jsstring" where
  "showNat n = (if n < 10 then [48 + n] else showNat (n div 10) @ [48 + n mod 10])"
  by pat_completeness auto
termination
  by (relation "measure id") auto

declare showNat.simps [simp del]

text \<open>
  An issue. The random \<open>id\<close> is left out; the fields copied from the context of the table
  (\<open>qid\<close>, \<open>questionIndex\<close>, \<open>field\<close>, \<open>tableIndex\<close>, \<open>fullText\<close>) are kept together.
  A location \<open>{}\<close> has neither row nor column.
\<close>

datatype severity = BAD | WARN

record auditContext =
  qid :: jsstring
  questionIndex :: nat
  field :: string
  tableIndex :: nat
  fullText :: jsstring

record location =
  locRow :: "nat option"
  locCol :: "nat option"

record Issue =
  issueContext :: auditContext
  severity :: severity
  issueType :: string
  title :: jsstring
  location :: location
  rawHtml :: jsstring

definition createIssue :: "auditContext \<Rightarrow> severity \<Rightarrow> string \<Rightarrow> jsstring \<Rightarrow> location \<Rightarrow> jsstring
    \<Rightarrow> Issue" where
  "createIssue ctx sev ty ttl loc html =
     \<lparr>issueContext = ctx, severity = sev, issueType = ty, title = ttl, location = loc, rawHtml = html\<rparr>"

definition noLoc :: location where "noLoc = \<lparr>locRow = None, locCol = None\<rparr>"
definition atCol :: "nat \<Rightarrow> location" where "atCol c = \<lparr>locRow = None, locCol = Some c\<rparr>"
definition atRow :: "nat \<Rightarrow> location" where "atRow r = \<lparr>locRow = Some r, locCol = None\<rparr>"
definition atCell :: "nat \<Rightarrow> nat \<Rightarrow> location" where "atCell r c = \<lparr>locRow = Some r, locCol = Some c\<rparr>"

text \<open>Header row and body rows of a table: step 4 of \<open>analyzeTable\<close>. Rows are given with their paths.\<close>

definition headerAndBodyRows :: "node \<Rightarrow> nat list
    \<Rightarrow> (nat list \<times> node) option \<times> (nat list \<times> node) list" where
  "headerAndBodyRows doc table =
     (let thead = querySelector doc table (Tags [''thead'']);
          tbody = querySelector doc table (Tags [''tbody''])
      in case thead of
           Some th \<Rightarrow>
             (querySelector doc (fst th) (Tags [''tr'']),
              (case tbody of
                 Some tb \<Rightarrow> querySelectorAll doc (fst tb) (Tags [''tr''])
               | None \<Rightarrow> filter (\<lambda>r. \<not> containsNode (fst th) (fst r))
                           (querySelectorAll doc table (ScopeChild ''tr''))))
         | None \<Rightarrow>
             (let candidateRows =
                    (case tbody of
                       Some tb \<Rightarrow> querySelectorAll doc (fst tb) (Tags [''tr''])
                     | None \<Rightarrow> querySelectorAll doc table (ScopeChild ''tr''))
              in if 0 < length candidateRows then (Some (hd candidateRows), tl candidateRows)
                 else (let anyRows = querySelectorAll doc table (Tags [''tr''])
                       in (case anyRows of [] \<Rightarrow> None | r # rs \<Rightarrow> Some r, drop 1 anyRows))))"

text \<open>The keywords that make a table financial; headers are compared in lower case.\<close>

definition financialKeywords :: "jsstring list" where
  "financialKeywords =
     [js ''d'' @ [233] @ js ''bito'', js ''cr'' @ [233] @ js ''dito'', js ''saldo'', js ''valor'',
      js ''r$'', js ''custo'', js ''receita'', js ''despesa'', js ''total'', js ''entradas'',
      js ''sa'' @ [237] @ js ''das'', js ''estoque'', js ''lucro'', js ''patrim'' @ [244] @ js ''nio'']"

definition isFinancialTable :: "jsstring list \<Rightarrow> bool" where
  "isFinancialTable headerTexts =
     list_ex (\<lambda>t. list_ex (\<lambda>k. includesStr t k) financialKeywords) headerTexts"

text \<open>Rule 6: a table of one row and one column with a short text.\<close>

definition rule1x1 :: "auditContext \<Rightarrow> jsstring \<Rightarrow> bool \<Rightarrow> nat \<Rightarrow> nat \<Rightarrow> node list \<Rightarrow> Issue list" where
  "rule1x1 ctx tableHtml hasHeaderRow nBodyRows expected headerCellsEls =
     (let totalRows = (if hasHeaderRow then 1 else 0) + nBodyRows in
      if totalRows = 1 \<and> expected = 1 then
        (let txt = (case headerCellsEls of [] \<Rightarrow> [] | c # cs \<Rightarrow> getText c) in
         if length txt < 100
         then [createIssue ctx WARN ''TABLE_1x1'' (js ''Table is 1x1 - possible misuse for layout'')
                 noLoc tableHtml]
         else [])
      else [])"

definition ruleEmptyTable :: "auditContext \<Rightarrow> jsstring \<Rightarrow> bool \<Rightarrow> nat \<Rightarrow> Issue list" where
  "ruleEmptyTable ctx tableHtml hasHeaderRow nBodyRows =
     (if hasHeaderRow \<and> nBodyRows = 0
      then [createIssue ctx WARN ''EMPTY_TABLE'' (js ''Table has header but no data rows'')
              noLoc tableHtml]
      else [])"

text \<open>Rule 8: the checks of one header cell, \<open>idx\<close> its index in the header row.\<close>

definition headerCellIssues :: "platform \<Rightarrow> auditContext \<Rightarrow> jsstring \<Rightarrow> nat \<times> node \<Rightarrow> Issue list" where
  "headerCellIssues pf ctx tableHtml ic =
     (let idx = fst ic; cell = snd ic;
          txt = getText cell;
          headerInnerHtml = innerHTML pf cell;
          latex = checkLatexBalance txt
      in (if endsWith txt (js ''($'') \<or> txt = js '')'' \<or> txt = js ''$)''
          then [createIssue ctx BAD ''SPLIT_HEADER''
                  (js ''Suspicious Header Split: '' @ [34] @ txt @ [34]) (atCell 0 idx) tableHtml]
          else [])
       @ (if txt = [] \<and> \<not> cellHasContent pf cell
          then [createIssue ctx WARN ''HEADER_EMPTY''
                  (js ''Empty Header (col '' @ showNat (idx + 1) @ js '')'') (atCol idx) tableHtml]
          else [])
       @ (if (includesStr txt (js ''$'') \<or> rxtest False RX_LATEX_COMMAND txt) \<and> broken latex
          then [createIssue ctx BAD ''HEADER_LATEX_BROKEN''
                  (js ''Header LaTeX broken: '' @ js (reason latex) @ js '' (col ''
                   @ showNat (idx + 1) @ js '')'') (atCell 0 idx) tableHtml]
          else [])
       @ (if rxtest False REGEX_BROKEN_STYLE_VALUE headerInnerHtml
          then [createIssue ctx BAD ''HEADER_BROKEN_STYLE''
                  (js ''Header has escaped HTML in style (col '' @ showNat (idx + 1) @ js '')'')
                  (atCell 0 idx) tableHtml]
          else []))"

definition isPlaceholderHeader :: "jsstring \<Rightarrow> bool" where
  "isPlaceholderHeader h \<longleftrightarrow> h = [] \<or> rxtest False RX_PLACEHOLDER (trim h)"

definition ruleMissingHeaderText :: "auditContext \<Rightarrow> jsstring \<Rightarrow> jsstring list \<Rightarrow> Issue list" where
  "ruleMissingHeaderText ctx tableHtml headerTexts =
     (let emptyOrPlaceholderHeaders = filter isPlaceholderHeader headerTexts in
      if 2 \<le> length emptyOrPlaceholderHeaders
      then [createIssue ctx BAD ''MISSING_HEADER_TEXT''
              (showNat (length emptyOrPlaceholderHeaders)
               @ js '' headers are empty/placeholder - needs header names or colspan'')
              noLoc tableHtml]
      else [])"

text \<open>
  Rule 10. \<open>dups\<close> are the entries that are not the first occurrence of their text;
  \<open>[...new Set(dups)]\<close> keeps the first occurrence of each and \<open>join\<close> puts \<open>', '\<close> between.
\<close>

fun laterOccurrences :: "jsstring list \<Rightarrow> jsstring list \<Rightarrow> jsstring list" where
  "laterOccurrences seen [] = []"
| "laterOccurrences seen (h # hs) =
     (if h \<in> set seen then h # laterOccurrences seen hs else laterOccurrences (seen @ [h]) hs)"

fun firstOccurrences :: "jsstring list \<Rightarrow> jsstring list \<Rightarrow> jsstring list" where
  "firstOccurrences seen [] = []"
| "firstOccurrences seen (h # hs) =
     (if h \<in> set seen then firstOccurrences seen hs else h # firstOccurrences (seen @ [h]) hs)"

fun joinWith :: "jsstring \<Rightarrow> jsstring list \<Rightarrow> jsstring" where
  "joinWith sep [] = []"
| "joinWith sep [x] = x"
| "joinWith sep (x # y # ys) = x @ sep @ joinWith sep (y # ys)"

definition ruleDuplicateHeaders :: "auditContext \<Rightarrow> jsstring \<Rightarrow> jsstring list \<Rightarrow> Issue list" where
  "ruleDuplicateHeaders ctx tableHtml headerTexts =
     (let nonEmpty = filter (\<lambda>h. \<not> isPlaceholderHeader h) headerTexts;
          dups = laterOccurrences [] nonEmpty
      in if 0 < length dups
         then [createIssue ctx BAD ''HEADER_DUP''
                 (js ''Duplicate Headers: '' @ joinWith (js '', '') (firstOccurrences [] dups))
                 noLoc tableHtml]
         else [])"

text \<open>
  Rule 9, the ghost columns. The loop from the last column backwards counts the columns
  without content until it meets one with content.
\<close>

fun countLeadingFalse :: "bool list \<Rightarrow> nat" where
  "countLeadingFalse [] = 0"
| "countLeadingFalse (b # bs) = (if \<not> b then Suc (countLeadingFalse bs) else 0)"

definition ghostColumnIssue :: "auditContext \<Rightarrow> jsstring \<Rightarrow> nat \<Rightarrow> nat \<times> bool \<Rightarrow> Issue list" where
  "ghostColumnIssue ctx tableHtml expected ch =
     (let cIdx = fst ch; has = snd ch in
      if \<not> has
      then [createIssue ctx (if cIdx = expected - 1 then BAD else WARN) ''GHOST_COLUMN''
              (js ''Ghost Column (Col '' @ showNat (cIdx + 1) @ js '' empty in all rows)'')
              (atCol cIdx) tableHtml]
      else [])"

definition ruleGhostColumns :: "auditContext \<Rightarrow> jsstring \<Rightarrow> nat \<Rightarrow> nat \<Rightarrow> bool list \<Rightarrow> Issue list" where
  "ruleGhostColumns ctx tableHtml expected nBodyRows gridColHasContent =
     (if 1 < expected \<and> 0 < nBodyRows then
        (let chc = take expected gridColHasContent;
             trailing = countLeadingFalse (rev chc)
         in if 3 \<le> trailing
            then [createIssue ctx BAD ''GHOST_COLUMNS''
                    (showNat trailing @ js '' trailing ghost columns detected'') noLoc tableHtml]
            else concat (map (ghostColumnIssue ctx tableHtml expected) (zip [0..<length chc] chc)))
      else [])"

text \<open>Rule 10 of the source's numbering: a body row whose logical width is not the expected one.\<close>

definition rowWidthIssue :: "auditContext \<Rightarrow> jsstring \<Rightarrow> nat \<Rightarrow> nat \<times> nat \<Rightarrow> Issue list" where
  "rowWidthIssue ctx tableHtml expected rw =
     (let rIdx = fst rw; w = snd rw in
      if 0 < expected \<and> w \<noteq> expected
      then [createIssue ctx BAD ''COL_MISMATCH''
              (js ''Row '' @ showNat (rIdx + 1) @ js '': '' @ showNat w @ js '' logical cols (expected ''
               @ showNat expected @ js '')'') (atRow rIdx) tableHtml]
      else [])"

definition ruleRowWidths :: "auditContext \<Rightarrow> jsstring \<Rightarrow> nat \<Rightarrow> nat list \<Rightarrow> Issue list" where
  "ruleRowWidths ctx tableHtml expected widths =
     concat (map (rowWidthIssue ctx tableHtml expected) (zip [0..<length widths] widths))"


text \<open>Rule 11: the checks of one body cell of the grid.\<close>

definition bodyCellIssues :: "platform \<Rightarrow> auditContext \<Rightarrow> jsstring \<Rightarrow> bool \<Rightarrow> GridCell \<Rightarrow> Issue list" where
  "bodyCellIssues pf ctx tableHtml isFinancial gc =
     (let td = el gc;
          text = getText td;
          inner = innerHTML pf td;
          r = nat (row gc);
          c = col gc;
          rc = js ''R'' @ showNat (r + 1) @ js '':C'' @ showNat (c + 1);
          latex = checkLatexBalance text
      in (if rxtest False REGEX_SPLIT_CELL text
          then [createIssue ctx BAD ''SPLIT_CELL''
                  (js ''Split Cell ('' @ [34] @ text @ [34] @ js '') at '' @ rc) (atCell r c) tableHtml]
          else [])
       @ (if rxtest False REGEX_SPLIT_OPERATOR text \<and> length (trim text) = 1
          then [createIssue ctx BAD ''SPLIT_CELL''
                  (js ''Split Operator ('' @ [34] @ text @ [34] @ js '') at '' @ rc) (atCell r c)
                  tableHtml]
          else [])
       @ (if rxtest False REGEX_AI_LAZY text
          then [createIssue ctx BAD ''AI_LAZY'' (js ''AI Placeholder: '' @ [34] @ text @ [34])
                  (atCell r c) tableHtml]
          else [])
       @ (if (includesStr text (js ''$'') \<or> rxtest False RX_LATEX_COMMAND text) \<and> broken latex
          then [createIssue ctx BAD ''LATEX_BROKEN''
                  (js ''LaTeX broken ('' @ js (reason latex) @ js '') at '' @ rc) (atCell r c) tableHtml]
          else [])
       @ (if rxtest False REGEX_BROKEN_ENTITY inner
          then [createIssue ctx WARN ''BROKEN_ENTITY'' (js ''Broken HTML entity at '' @ rc)
                  (atCell r c) tableHtml]
          else [])
       @ (if rxtest False REGEX_BROKEN_STYLE_VALUE inner
          then [createIssue ctx BAD ''BROKEN_STYLE_VALUE''
                  (js ''Cell has escaped HTML in style at '' @ rc) (atCell r c) tableHtml]
          else [])
       @ (if rxtest False RX_TRUNCATED text \<and> 10 < length text
          then [createIssue ctx WARN ''TRUNCATED_CONTENT'' (js ''Content may be truncated at '' @ rc)
                  (atCell r c) tableHtml]
          else [])
       @ (if \<not> isFinancial \<and> text = [] \<and> rxtest False RX_NBSP inner \<and> 0 < length inner
             \<and> length inner < 80
          then [createIssue ctx WARN ''WHITESPACE_ONLY''
                  (js ''Cell contains only whitespace/nbsp at '' @ rc) (atCell r c) tableHtml]
          else []))"

text \<open>
  Rule 12: holes. The cells of a row are taken from the grid and sorted by column; a column
  of the row that no cell covers while both neighbours are covered is a hole.
\<close>

definition coveredCols :: "nat \<Rightarrow> GridCell list \<Rightarrow> bool list" where
  "coveredCols expected arr =
     foldl (\<lambda>covered gc.
              foldl (\<lambda>cv i. if col gc + i < expected then cv[col gc + i := True] else cv)
                covered [0..<colspan gc])
       (replicate expected False) arr"

definition holeIssuesOfRow :: "auditContext \<Rightarrow> jsstring \<Rightarrow> nat \<Rightarrow> GridCell list \<Rightarrow> nat \<Rightarrow> Issue list" where
  "holeIssuesOfRow ctx tableHtml expected cells r =
     (let arr = sort_key col (filter (\<lambda>gc. row gc = int r) cells) in
      if length arr < 2 then []
      else
        (let covered = coveredCols expected arr in
         concat (map (\<lambda>c. if \<not> covered ! c \<and> covered ! (c - 1) \<and> covered ! (c + 1)
                           then [createIssue ctx WARN ''CELL_HOLE''
                                   (js ''Potential missing cell at R'' @ showNat (r + 1) @ js '':C''
                                    @ showNat (c + 1)) (atCell r c) tableHtml]
                           else [])
                   [1..<expected - 1])))"

definition ruleHoles :: "auditContext \<Rightarrow> jsstring \<Rightarrow> bool \<Rightarrow> nat \<Rightarrow> nat \<Rightarrow> GridCell list \<Rightarrow> Issue list" where
  "ruleHoles ctx tableHtml isFinancial nBodyRows expected cells =
     (if \<not> isFinancial
      then concat (map (holeIssuesOfRow ctx tableHtml expected cells) [0..<nBodyRows])
      else [])"

text \<open>The last two rules: a rowspan beyond the rows of the table, and a broken inline style.\<close>

definition ruleInvalidRowspan :: "auditContext \<Rightarrow> jsstring \<Rightarrow> node \<Rightarrow> nat list \<Rightarrow> bool \<Rightarrow> nat
    \<Rightarrow> Issue list" where
  "ruleInvalidRowspan ctx tableHtml doc table hasHeaderRow nBodyRows =
     (let maxRows = (if hasHeaderRow then 1 else 0) + nBodyRows in
      concat (map (\<lambda>e. let rs = safeInt (getAttribute (snd e) ''rowspan'') in
                        if maxRows < rs
                        then [createIssue ctx BAD ''INVALID_ROWSPAN''
                                (js ''Rowspan ('' @ showNat rs @ js '') exceeds table rows (''
                                 @ showNat maxRows @ js '')'') noLoc tableHtml]
                        else [])
                (querySelectorAll doc table (HasAttr ''rowspan''))))"

definition ruleBrokenStyle :: "auditContext \<Rightarrow> jsstring \<Rightarrow> node \<Rightarrow> nat list \<Rightarrow> Issue list" where
  "ruleBrokenStyle ctx tableHtml doc table =
     concat (map (\<lambda>e. let style = (case getAttribute (snd e) ''style'' of None \<Rightarrow> [] | Some s \<Rightarrow> s) in
                       if rxtest False RX_STYLE_SHORTHAND style
                       then [createIssue ctx WARN ''BROKEN_STYLE'' (js ''Broken inline style detected'')
                               noLoc tableHtml]
                       else [])
               (querySelectorAll doc table (HasAttr ''style'')))"

text \<open>
  \<open>analyzeTable\<close> from the nested-table check on, for the table at path \<open>table\<close> of the parsed
  markup: the rules run in the order of the source and none of them stops the others.
\<close>

definition analyzeParsed :: "platform \<Rightarrow> jsstring \<Rightarrow> auditContext \<Rightarrow> node \<Rightarrow> nat list \<Rightarrow> Issue list" where
  "analyzeParsed pf tableHtml ctx doc table =
     (let nested = querySelectorAll doc table (Inside [''td'', ''th''] [''table'']);
          hb = headerAndBodyRows doc table;
          headerRow = fst hb;
          bodyRows = snd hb;
          headerCellsEls =
            (case headerRow of None \<Rightarrow> [] | Some h \<Rightarrow> elementsIn (snd h) (Tags [''th'', ''td'']));
          g = buildGrid pf (map_option snd headerRow) (map snd bodyRows);
          expected = expectedCols g;
          headerTexts = map (\<lambda>c. toLowerCase pf (getText c)) headerCellsEls;
          isFinancial = isFinancialTable headerTexts;
          hasHeaderRow = (headerRow \<noteq> None);
          nBodyRows = length bodyRows
      in (if 0 < length nested
          then [createIssue ctx WARN ''NESTED_TABLE''
                  (js ''Table contains '' @ showNat (length nested)
                   @ js '' nested table(s) - verify structure'') noLoc tableHtml]
          else [])
       @ (if headerRow = None \<or> length headerCellsEls = 0
          then [createIssue ctx WARN ''NO_HEADER'' (js ''Table has no identifiable header row'')
                  noLoc tableHtml]
          else [])
       @ rule1x1 ctx tableHtml hasHeaderRow nBodyRows expected headerCellsEls
       @ ruleEmptyTable ctx tableHtml hasHeaderRow nBodyRows
       @ concat (map (headerCellIssues pf ctx tableHtml) (zip [0..<length headerCellsEls] headerCellsEls))
       @ ruleMissingHeaderText ctx tableHtml headerTexts
       @ ruleDuplicateHeaders ctx tableHtml headerTexts
       @ ruleGhostColumns ctx tableHtml expected nBodyRows (colHasContent g)
       @ ruleRowWidths ctx tableHtml expected (rowWidths g)
       @ concat (map (bodyCellIssues pf ctx tableHtml isFinancial) (bodyCells g))
       @ ruleHoles ctx tableHtml isFinancial nBodyRows expected (bodyCells g)
       @ ruleInvalidRowspan ctx tableHtml doc table hasHeaderRow nBodyRows
       @ ruleBrokenStyle ctx tableHtml doc table)"

text \<open>
  \<open>analyzeTable\<close>: the four checks that return at once, then the rules. The title of the
  first issue has an \<open>e\<close> acute, code unit 233.
\<close>

definition analyzeTable :: "platform \<Rightarrow> jsstring \<Rightarrow> auditContext \<Rightarrow> Issue list" where
  "analyzeTable pf tableHtml ctx =
     (let trimmed = trim tableHtml in
      if rxtest False REGEX_CONTENT_SWALLOW tableHtml
      then [createIssue ctx BAD ''CONTENT_SWALLOW''
              (js ''Table swallows layout content (Armadilha/Estrat'' @ [233]
               @ js ''gia) -> AUTO-REMOVE'') noLoc tableHtml]
      else if startsWith trimmed (js ''|'') \<or> rxtest False RX_MD_SEPARATOR trimmed
      then [createIssue ctx BAD ''MARKDOWN_DETECTED'' (js ''Output is Markdown format (Expected HTML)'')
              noLoc tableHtml]
      else
        (let doc = parse pf tableHtml in
         case querySelector doc [] (Tags [''table'']) of
           None \<Rightarrow>
             (if 0 < length trimmed
              then [createIssue ctx BAD ''INVALID_HTML'' (js ''No <table> tag found in output'')
                      noLoc tableHtml]
              else [])
         | Some t \<Rightarrow>
             (if length (querySelectorAll doc (fst t) (Tags [''tr''])) = 0
              then [createIssue ctx WARN ''NO_DATA'' (js ''Table has no rows (<tr>)'') noLoc tableHtml]
              else analyzeParsed pf tableHtml ctx doc (fst t))))"

text \<open>
  The grid that \<open>analyzeTable\<close> audits, with the number of body rows of the table: \<open>None\<close> when
  the analysis returns before it builds a grid.
\<close>

definition auditedGrid :: "platform \<Rightarrow> jsstring \<Rightarrow> (TableGrid \<times> nat) option" where
  "auditedGrid pf tableHtml =
     (let trimmed = trim tableHtml in
      if rxtest False REGEX_CONTENT_SWALLOW tableHtml then None
      else if startsWith trimmed (js ''|'') \<or> rxtest False RX_MD_SEPARATOR trimmed then None
      else
        (let doc = parse pf tableHtml in
         case querySelector doc [] (Tags [''table'']) of
           None \<Rightarrow> None
         | Some t \<Rightarrow>
             (if length (querySelectorAll doc (fst t) (Tags [''tr''])) = 0 then None
              else (let hb = headerAndBodyRows doc (fst t)
                    in Some (buildGrid pf (map_option snd (fst hb)) (map snd (snd hb)),
                             length (snd hb))))))"

section \<open>The Audit Coordinator (auditService)\<close>

text \<open>\<open>extractTopLevelTables\<close>: the tables of the parsed text that lie in no other table.\<close>

definition extractTopLevelTables :: "platform \<Rightarrow> jsstring \<Rightarrow> node list" where
  "extractTopLevelTables pf html =
     (let doc = parse pf html;
          all = querySelectorAll doc [] (Tags [''table''])
      in if length all = 0 then []
         else map snd (filter (\<lambda>t. \<not> list_ex (\<lambda>a. tagOf a = ''table'') (ancestorsOf doc (fst t))) all))"

text \<open>
  A question: its identifiers (a number is given by its text) and the four audited fields.
  A field that is absent or not a string is \<open>None\<close>.
\<close>

record Question =
  ident :: "jsstring option"
  id_pasta :: "jsstring option"
  id_resolucao :: "jsstring option"
  enunciado :: "jsstring option"
  resolucao :: "jsstring option"
  resolucao_aprofundada :: "jsstring option"
  texto_associado :: "jsstring option"

definition getQuestionId :: "Question \<Rightarrow> jsstring" where
  "getQuestionId q =
     (if ident q \<noteq> None \<and> ident q \<noteq> Some [] then the (ident q)
      else if id_pasta q \<noteq> None \<and> id_pasta q \<noteq> Some [] then the (id_pasta q)
      else if id_resolucao q \<noteq> None \<and> id_resolucao q \<noteq> Some [] then the (id_resolucao q)
      else js ''UNKNOWN'')"

definition FIELDS_TO_AUDIT :: "(string \<times> (Question \<Rightarrow> jsstring option)) list" where
  "FIELDS_TO_AUDIT =
     [(''enunciado'', enunciado), (''resolucao'', resolucao),
      (''resolucao_aprofundada'', resolucao_aprofundada), (''texto_associado'', texto_associado)]"

text \<open>The audit of one field of one question: the issues and the number of tables analysed.\<close>

definition auditField :: "platform \<Rightarrow> nat \<Rightarrow> Question \<Rightarrow> string \<times> (Question \<Rightarrow> jsstring option)
    \<Rightarrow> Issue list \<times> nat" where
  "auditField pf index q f =
     (case snd f q of
        None \<Rightarrow> ([], 0)
      | Some v \<Rightarrow>
          if v = [] then ([], 0)
          else
            (let cx = (\<lambda>idx. \<lparr>qid = getQuestionId q, questionIndex = index, field = fst f,
                              tableIndex = idx, fullText = v\<rparr>);
                 md = (if rxtest True REGEX_MD_TABLE v \<and> \<not> rxtest False RX_TABLE_TAG v
                       then [createIssue (cx 0) BAD ''MARKDOWN_TABLE_IN_FIELD''
                               (js ''Field contains Markdown table instead of HTML'') noLoc (take 600 v)]
                       else []);
                 topTables = extractTopLevelTables pf v
             in (md @ concat (map (\<lambda>t. analyzeTable pf (outerHTML pf (snd t)) (cx (fst t)))
                                (zip [0..<length topTables] topTables)),
                 length topTables)))"

record AuditStats =
  totalTables :: nat
  bad :: nat
  warn :: nat

record AuditReport =
  stats :: AuditStats
  issues :: "Issue list"

text \<open>
  \<open>auditData\<close> on the list of questions (the array itself, or the \<open>questoes\<close> of the wrapping
  object). The elapsed time of the statistics is left out.
\<close>

definition auditData :: "platform \<Rightarrow> Question list \<Rightarrow> AuditReport" where
  "auditData pf questions =
     (let perField = concat (map (\<lambda>iq. map (auditField pf (fst iq) (snd iq)) FIELDS_TO_AUDIT)
                                (zip [0..<length questions] questions));
          allIssues = concat (map fst perField)
      in \<lparr>stats = \<lparr>totalTables = sum_list (map snd perField),
                    bad = length (filter (\<lambda>i. severity i = BAD) allIssues),
                    warn = length (filter (\<lambda>i. severity i = WARN) allIssues)\<rparr>,
          issues = allIssues\<rparr>)"


section \<open>Concrete tables and a concrete platform\<close>

text \<open>
  A serialiser and a lower-casing that agree with the platform's on the trees and texts used
  below: elements are written with their attributes in double quotes and their children
  between the tags, text is written as it is (the texts below contain no character that the
  serialiser escapes), and letters are lower-cased in ASCII and Latin-1.
\<close>

definition plainAttr :: "string \<times> jsstring \<Rightarrow> jsstring" where
  "plainAttr a = js '' '' @ js (fst a) @ js ''='' @ [34] @ snd a @ [34]"

primrec plainOuter :: "node \<Rightarrow> jsstring" and plainOuters :: "node list \<Rightarrow> jsstring" where
  "plainOuter (Element t as cs) =
     js ''<'' @ js t @ concat (map plainAttr as) @ js ''>'' @ plainOuters cs @ js ''</'' @ js t @ js ''>''"
| "plainOuter (Text s) = s"
| "plainOuters [] = []"
| "plainOuters (c # cs) = plainOuter c @ plainOuters cs"

definition plainInner :: "node \<Rightarrow> jsstring" where
  "plainInner n = plainOuters (childNodes n)"

definition lowerLatin1 :: "jsstring \<Rightarrow> jsstring" where
  "lowerLatin1 s =
     map (\<lambda>c. if (65 \<le> c \<and> c \<le> 90) \<or> (192 \<le> c \<and> c \<le> 222 \<and> c \<noteq> 215) then c + 32 else c) s"

definition cellEl :: "string \<Rightarrow> (string \<times> jsstring) list \<Rightarrow> string \<Rightarrow> node" where
  "cellEl t as s = Element t as (if s = [] then [] else [Text (js s)])"

definition inDocument :: "node list \<Rightarrow> node" where
  "inDocument body = Element ''html'' [] [Element ''head'' [] [], Element ''body'' [] body]"

text \<open>
  The scenario of the ghost column: a header \<open>Coluna 1 | Valor\<close> and one body row with an
  empty first cell. \<open>ghostValue\<close> is the field as uploaded; the parser puts the rows into a
  \<open>tbody\<close>, so \<open>ghostTableHtml\<close> is the \<open>outerHTML\<close> of the table, which \<open>analyzeTable\<close>
  parses again.
\<close>

definition ghostTable :: node where
  "ghostTable =
     Element ''table'' []
       [Element ''tbody'' []
          [Element ''tr'' [] [cellEl ''th'' [] ''Coluna 1'', cellEl ''th'' [] ''Valor''],
           Element ''tr'' [] [cellEl ''td'' [] '''', cellEl ''td'' [] ''10'']]]"

definition ghostValue :: jsstring where
  "ghostValue =
     js ''<table><tr><th>Coluna 1</th><th>Valor</th></tr><tr><td></td><td>10</td></tr></table>''"

definition ghostTableHtml :: jsstring where
  "ghostTableHtml =
     js ''<table><tbody><tr><th>Coluna 1</th><th>Valor</th></tr><tr><td></td><td>10</td></tr></tbody></table>''"

definition ghostPlatform :: platform where
  "ghostPlatform =
     \<lparr>parse = (\<lambda>s. if s = ghostValue \<or> s = ghostTableHtml then inDocument [ghostTable]
                    else inDocument [Text s]),
      innerHTML = plainInner, outerHTML = plainOuter, toLowerCase = lowerLatin1\<rparr>"

definition ghostDocument :: "Question list" where
  "ghostDocument =
     [\<lparr>ident = None, id_pasta = None, id_resolucao = None, enunciado = Some ghostValue,
       resolucao = None, resolucao_aprofundada = None, texto_associado = None\<rparr>]"

text \<open>
  A table with a cell of rowspan 2: header \<open>A | B\<close>, first body row \<open>x\<close> (rowspan 2) and \<open>y\<close>,
  second body row \<open>z\<close> alone, which belongs under \<open>B\<close>.
\<close>

definition spanHeaderRow :: node where
  "spanHeaderRow = Element ''tr'' [] [cellEl ''th'' [] ''A'', cellEl ''th'' [] ''B'']"

definition spanBodyRows :: "node list" where
  "spanBodyRows =
     [Element ''tr'' [] [cellEl ''td'' [(''rowspan'', js ''2'')] ''x'', cellEl ''td'' [] ''y''],
      Element ''tr'' [] [cellEl ''td'' [] ''z'']]"

definition plainPlatform :: platform where
  "plainPlatform =
     \<lparr>parse = (\<lambda>s. inDocument [Text s]),
      innerHTML = plainInner, outerHTML = plainOuter, toLowerCase = lowerLatin1\<rparr>"

text \<open>
  The same with a rowspan of 3 and a third body row \<open>w\<close>, which belongs under \<open>B\<close> as well.
\<close>

definition spanThreeBodyRows :: "node list" where
  "spanThreeBodyRows =
     [Element ''tr'' [] [cellEl ''td'' [(''rowspan'', js ''3'')] ''x'', cellEl ''td'' [] ''y''],
      Element ''tr'' [] [cellEl ''td'' [] ''z''],
      Element ''tr'' [] [cellEl ''td'' [] ''w'']]"

text \<open>Where the grid put its cells: row, column, colspan and rowspan of each.\<close>

definition cellPlace :: "GridCell \<Rightarrow> int \<times> nat \<times> nat \<times> nat" where
  "cellPlace gc = (row gc, col gc, colspan gc, rowspan gc)"

text \<open>What the claims read of an issue: severity, type and location.\<close>

definition issueKey :: "Issue \<Rightarrow> severity \<times> string \<times> location" where
  "issueKey i = (severity i, issueType i, location i)"

definition isGhostIssue :: "Issue \<Rightarrow> bool" where
  "isGhostIssue i \<longleftrightarrow> issueType i = ''GHOST_COLUMNS'' \<or> issueType i = ''GHOST_COLUMN''"

text \<open>
  The ghost columns among the expected columns, and whether the last three expected columns
  are all ghosts.
\<close>

definition ghostCols :: "nat \<Rightarrow> bool list \<Rightarrow> nat list" where
  "ghostCols expected chc = filter (\<lambda>c. \<not> chc ! c) [0..<expected]"

definition threeTrailingGhosts :: "nat \<Rightarrow> bool list \<Rightarrow> bool" where
  "threeTrailingGhosts expected chc \<longleftrightarrow>
     3 \<le> expected \<and> \<not> chc ! (expected - 1) \<and> \<not> chc ! (expected - 2) \<and> \<not> chc ! (expected - 3)"

text \<open>
  Two more tables, each the only table of the document its platform parses: four header
  cells over a body row whose last three cells are empty, and two header cells over a body
  row whose last cell is empty.
\<close>

definition trailingHeaderRow :: node where
  "trailingHeaderRow =
     Element ''tr'' [] [cellEl ''th'' [] ''A'', cellEl ''th'' [] ''B'', cellEl ''th'' [] ''C'',
                       cellEl ''th'' [] ''D'']"

definition trailingBodyRow :: node where
  "trailingBodyRow =
     Element ''tr'' [] [cellEl ''td'' [] ''1'', cellEl ''td'' [] '''', cellEl ''td'' [] '''',
                       cellEl ''td'' [] '''']"

definition lastColumnBodyRow :: node where
  "lastColumnBodyRow = Element ''tr'' [] [cellEl ''td'' [] ''1'', cellEl ''td'' [] '''']"

definition trailingPlatform :: platform where
  "trailingPlatform =
     plainPlatform\<lparr>parse := (\<lambda>s. inDocument
        [Element ''table'' [] [Element ''tbody'' [] [trailingHeaderRow, trailingBodyRow]]])\<rparr>"

definition lastColumnPlatform :: platform where
  "lastColumnPlatform =
     plainPlatform\<lparr>parse := (\<lambda>s. inDocument
        [Element ''table'' [] [Element ''tbody'' [] [spanHeaderRow, lastColumnBodyRow]]])\<rparr>"

definition ghostContext :: auditContext where
  "ghostContext = \<lparr>qid = js ''7'', questionIndex = 0, field = ''enunciado'', tableIndex = 0,
                   fullText = js ''<table>''\<rparr>"


text \<open>
  A table with a cell of rowspan 2 over a column that has content only below the first body
  row: header \<open>A | B\<close>, first body row \<open>x\<close> (rowspan 2) and an empty cell, second body row
  \<open>z\<close> alone. In the table as a browser lays it out \<open>x\<close> fills column \<open>A\<close> in both body rows,
  so \<open>z\<close> is the cell of column \<open>B\<close> in the second row.
\<close>

definition rowspanGhostBodyRows :: "node list" where
  "rowspanGhostBodyRows =
     [Element ''tr'' [] [cellEl ''td'' [(''rowspan'', js ''2'')] ''x'', cellEl ''td'' [] ''''],
      Element ''tr'' [] [cellEl ''td'' [] ''z'']]"

definition rowspanGhostPlatform :: platform where
  "rowspanGhostPlatform =
     plainPlatform\<lparr>parse := (\<lambda>s. inDocument
        [Element ''table'' [] [Element ''tbody'' [] (spanHeaderRow # rowspanGhostBodyRows)]])\<rparr>"

text \<open>The text of a placed cell with its place in the grid.\<close>

definition placedText :: "GridCell \<Rightarrow> jsstring \<times> int \<times> nat \<times> nat \<times> nat" where
  "placedText gc = (getText (el gc), cellPlace gc)"

section \<open>The expected-column hint (repairService)\<close>

text \<open>
  \<open>countExpectedCols\<close> runs inside \<open>try\<close>: \<open>tryParse\<close> is the constructor \<open>new JSDOM(html)\<close>,
  which gives the document or throws, and the \<open>catch\<close> returns \<open>0\<close>.
\<close>

definition countCellsPerRow :: "node \<Rightarrow> nat" where
  "countCellsPerRow doc =
     (case querySelector doc [] (Tags [''table'']) of
        None \<Rightarrow> 0
      | Some t \<Rightarrow>
          foldl (\<lambda>mx tr. let c = length (querySelectorAll doc (fst tr) (Tags [''td'', ''th'']))
                          in if mx < c then c else mx)
            0 (querySelectorAll doc (fst t) (Tags [''tr''])))"

definition countExpectedCols :: "(jsstring \<Rightarrow> error + node) \<Rightarrow> jsstring \<Rightarrow> nat" where
  "countExpectedCols tryParse html =
     (case tryParse html of
        Inl e \<Rightarrow> 0
      | Inr doc \<Rightarrow> countCellsPerRow doc)"

text \<open>The same tree with other attributes: \<open>f\<close> rewrites the attribute list of every element.\<close>

primrec withAttrs :: "((string \<times> jsstring) list \<Rightarrow> (string \<times> jsstring) list) \<Rightarrow> node \<Rightarrow> node" where
  "withAttrs f (Element t as cs) = Element t (f as) (map (withAttrs f) cs)"
| "withAttrs f (Text s) = Text s"

text \<open>A table whose single header cell spans two columns, over a row of two cells.\<close>

definition colspanTable :: node where
  "colspanTable =
     Element ''table'' []
       [Element ''tbody'' []
          [Element ''tr'' [] [cellEl ''th'' [(''colspan'', js ''2'')] ''AB''],
           Element ''tr'' [] [cellEl ''td'' [] ''1'']]]"

section \<open>Output reconstruction: domReplace (repairWorker)\<close>

text \<open>
  Replacing the node at a path by a list of nodes: none for \<open>target.remove()\<close>, one for
  \<open>target.replaceWith(newTable)\<close>. The rest of the tree is kept.
\<close>

fun replaceAt :: "node \<Rightarrow> nat list \<Rightarrow> node list \<Rightarrow> node" where
  "replaceAt (Element t as cs) [i] rs =
     (if i < length cs then Element t as (take i cs @ rs @ drop (Suc i) cs) else Element t as cs)"
| "replaceAt (Element t as cs) (i # j # p) rs =
     (if i < length cs then Element t as (cs[i := replaceAt (cs ! i) (j # p) rs])
      else Element t as cs)"
| "replaceAt n p rs = n"

text \<open>
  The top-level tables of the body: the tables below it, in document order, that have no
  table among their ancestors below the body (the walk up from \<open>parentElement\<close> stops at the
  body). Paths are relative to the body.
\<close>

definition topLevelTables :: "node \<Rightarrow> (nat list \<times> node) list" where
  "topLevelTables body =
     filter (\<lambda>t. \<not> list_ex (\<lambda>a. tagOf a = ''table'') (drop 1 (ancestorsOf body (fst t))))
       (querySelectorAll body [] (Tags [''table'']))"

text \<open>
  The \<open>try\<close> block of \<open>domReplace\<close> after its first statement, with the library at hand.
  \<open>fragment\<close> is the parser behind \<open>tempDiv.innerHTML = newTableHtml\<close>: it gives the children
  of the \<open>div\<close>. The index \<open>idx\<close> (\<open>tableIndex\<close>) is an integer; below \<open>0\<close> the target is
  \<open>undefined\<close>, a method call on it throws, and the \<open>catch\<close> returns \<open>fullHtml\<close>.
\<close>

definition domReplaceWith :: "platform \<Rightarrow> (jsstring \<Rightarrow> node list) \<Rightarrow> jsstring \<Rightarrow> jsstring \<Rightarrow> int
    \<Rightarrow> jsstring" where
  "domReplaceWith pf fragment fullHtml newTableHtml idx =
     (let doc = parse pf (js ''<body>'' @ fullHtml @ js ''</body>'') in
      case querySelector doc [] (Tags [''body'']) of
        None \<Rightarrow> fullHtml
      | Some b \<Rightarrow>
          (let body = snd b;
               allTables = topLevelTables body
           in if int (length allTables) \<le> idx then fullHtml
              else
                (let targetTable = (if 0 \<le> idx then Some (allTables ! nat idx) else None)
                 in if trim newTableHtml = [] then
                      (case targetTable of
                         None \<Rightarrow> fullHtml
                       | Some t \<Rightarrow> innerHTML pf (replaceAt body (fst t) []))
                    else
                      (case querySelector (Element ''div'' [] (fragment newTableHtml)) []
                              (Tags [''table'']) of
                         None \<Rightarrow> innerHTML pf body
                       | Some newTable \<Rightarrow>
                           (case targetTable of
                              None \<Rightarrow> fullHtml
                            | Some t \<Rightarrow> innerHTML pf (replaceAt body (fst t) [snd newTable]))))))"

text \<open>
  The first statement of the \<open>try\<close> block is \<open>const { JSDOM } = require('jsdom')\<close>. What
  \<open>require\<close> denotes depends on the kind of module the function is in: a CommonJS module
  binds it to the loader, which gives the library; an ES module does not bind it, and
  evaluating the identifier throws a \<open>ReferenceError\<close>.

  \<open>repairWorker.ts\<close> is an ES module: it is written with \<open>import\<close> and \<open>export\<close>
  declarations, its specifiers name the compiled \<open>.js\<close> files of the package, and the entry
  point \<open>app.ts\<close> of the same package uses \<open>await\<close> at the top level, which only an ES
  module may. (\<open>repairService\<close>, in contrast, gets the library with an \<open>import\<close>
  declaration.)
\<close>

datatype moduleKind = ESModule | CommonJS

definition require :: "moduleKind \<Rightarrow> 'lib \<Rightarrow> error + 'lib" where
  "require scope lib =
     (case scope of
        ESModule \<Rightarrow> Inl (Error ''require is not defined'')
      | CommonJS \<Rightarrow> Inr lib)"

definition repairWorkerModule :: moduleKind where
  "repairWorkerModule = ESModule"

text \<open>
  \<open>domReplace\<close>, in a module of kind \<open>scope\<close>; the library is the parser and serialiser \<open>pf\<close>
  with the fragment parser. The \<open>catch\<close> logs the error and returns \<open>fullHtml\<close>.
\<close>

definition domReplace :: "moduleKind \<Rightarrow> platform \<Rightarrow> (jsstring \<Rightarrow> node list) \<Rightarrow> jsstring \<Rightarrow> jsstring
    \<Rightarrow> int \<Rightarrow> jsstring" where
  "domReplace scope pf fragment fullHtml newTableHtml idx =
     (case require scope (pf, fragment) of
        Inl e \<Rightarrow> fullHtml
      | Inr jsdom \<Rightarrow> domReplaceWith (fst jsdom) (snd jsdom) fullHtml newTableHtml idx)"

text \<open>
  For stating what a replacement changes: the tokens of a tree in document order, and the
  top-level tables of a list of nodes found by descending from the top and stopping at each
  table.
\<close>

datatype token = Open string "(string \<times> jsstring) list" | Close string | Chars jsstring

primrec tokens :: "node \<Rightarrow> token list" and tokensOf :: "node list \<Rightarrow> token list" where
  "tokens (Element t as cs) = Open t as # tokensOf cs @ [Close t]"
| "tokens (Text s) = [Chars s]"
| "tokensOf [] = []"
| "tokensOf (c # cs) = tokens c @ tokensOf cs"

primrec outerTables :: "node \<Rightarrow> node list" and outerTablesOf :: "node list \<Rightarrow> node list" where
  "outerTables (Element t as cs) = (if t = ''table'' then [Element t as cs] else outerTablesOf cs)"
| "outerTables (Text s) = []"
| "outerTablesOf [] = []"
| "outerTablesOf (c # cs) = outerTables c @ outerTablesOf cs"

text \<open>What the ancestor walk keeps: a table with no table among its ancestors below the body.\<close>

definition keptTable :: "node \<Rightarrow> nat list \<times> node \<Rightarrow> bool" where
  "keptTable n t \<longleftrightarrow>
     tagOf (snd t) = ''table''
     \<and> \<not> list_ex (\<lambda>a. tagOf a = ''table'') (drop (Suc 0) (ancestorsOf n (fst t)))"

text \<open>
  A field with a paragraph, a table that holds a nested table, and a second table; and the
  platform that parses it inside \<open>body\<close> tags.
\<close>

definition rowsTable :: "node list \<Rightarrow> node" where
  "rowsTable cells = Element ''table'' [] [Element ''tbody'' [] [Element ''tr'' [] cells]]"

definition fieldNodes :: "node list" where
  "fieldNodes =
     [Element ''p'' [] [Text (js ''a'')],
      rowsTable [Element ''td'' [] [rowsTable [cellEl ''td'' [] ''n'']]],
      rowsTable [cellEl ''td'' [] ''old'']]"

definition fieldHtml :: jsstring where
  "fieldHtml = plainOuters fieldNodes"

definition repairedNodes :: "node list" where
  "repairedNodes = [rowsTable [cellEl ''td'' [] ''new'']]"

definition fieldPlatform :: platform where
  "fieldPlatform = plainPlatform\<lparr>parse := (\<lambda>s. inDocument fieldNodes)\<rparr>"


section \<open>Rounding\<close>






lemma pow2_nat: "pow2 (int n) = 2 ^ n"
  by (simp add: pow2_def)



lemma fl_zero [simp]: "fl 0 = 0"
  by (simp add: fl_def)


text \<open>
  Roundings as the language performs them: the literal \<open>0.1\<close>, a third, two ties above
  \<open>2 ^ 53\<close> (to the even significand), an exact value and a negative one.
\<close>

lemma fl_examples:
  "fl (1 / 10) = 3602879701896397 / 2 ^ 55
   \<and> fl (1 / 3) = 6004799503160661 / 2 ^ 54
   \<and> fl (2 ^ 53 + 1) = 2 ^ 53
   \<and> fl (2 ^ 53 + 3) = 2 ^ 53 + 4
   \<and> fl 6 = 6
   \<and> fl (- (1 / 10)) = - (3602879701896397 / 2 ^ 55)"
  by code_simp














section \<open>Key rotation\<close>

lemma keyCalls_length:
  "ks \<noteq> [] \<Longrightarrow> length (keyCalls ks p n) = n"
  by (induction n arbitrary: p) (auto simp: getNextKey_def)

lemma keyCalls_nth:
  "ks \<noteq> [] \<Longrightarrow> j < n \<Longrightarrow> p < length ks \<Longrightarrow>
   keyCalls ks p n ! j = ((p + j) mod length ks, Some (ks ! ((p + j) mod length ks)))"
proof (induction n arbitrary: p j)
  case 0
  then show ?case by simp
next
  case (Suc n)
  show ?case
  proof (cases j)
    case 0
    with Suc.prems show ?thesis by (simp add: getNextKey_def nth_opt_def)
  next
    case (Suc j')
    have lt: "(p + 1) mod length ks < length ks" using Suc.prems by simp
    have e: "((p + 1) mod length ks + j') mod length ks = (p + j) mod length ks"
      using Suc by (simp add: mod_add_left_eq)
    have "keyCalls ks ((p + 1) mod length ks) n ! j'
          = (((p + 1) mod length ks + j') mod length ks,
             Some (ks ! (((p + 1) mod length ks + j') mod length ks)))"
      using Suc.IH[OF Suc.prems(1) _ lt, of j'] Suc.prems Suc by simp
    then show ?thesis using Suc Suc.prems unfolding e
      by (simp add: getNextKey_def)
  qed
qed

lemma selectedIndices_length:
  "ks \<noteq> [] \<Longrightarrow> length (selectedIndices ks p n) = n"
  by (simp add: selectedIndices_def keyCalls_length)

lemma selectedIndices_nth:
  "ks \<noteq> [] \<Longrightarrow> j < n \<Longrightarrow> p < length ks \<Longrightarrow>
   selectedIndices ks p n ! j = (p + j) mod length ks"
  by (simp add: selectedIndices_def keyCalls_length keyCalls_nth)

lemma selectedKeys_nth:
  "ks \<noteq> [] \<Longrightarrow> j < n \<Longrightarrow> p < length ks \<Longrightarrow>
   selectedKeys ks p n ! j = Some (ks ! ((p + j) mod length ks))"
  by (simp add: selectedKeys_def keyCalls_length keyCalls_nth)

lemma mod_window_distinct:
  fixes k :: nat
  assumes "i < j" "j < i + k"
  shows "(p + i) mod k \<noteq> (p + j) mod k"
proof
  assume e: "(p + i) mod k = (p + j) mod k"
  have "(p + j) - (p + i) = j - i" by simp
  from e have "k dvd ((p + j) - (p + i))"
    by (metis mod_eq_dvd_iff_nat add_le_cancel_left assms(1) less_imp_le_nat)
  then have "k dvd (j - i)" by simp
  moreover have "0 < j - i" "j - i < k" using assms by auto
  ultimately show False by (auto dest: dvd_imp_le)
qed

text \<open>
  C8. With \<open>k \<ge> 2\<close> configured keys and the pointer in range (it starts at \<open>0\<close> and
  \<open>getNextKey\<close> keeps it below \<open>k\<close>), the \<open>j\<close>-th of \<open>n\<close> consecutive calls of \<open>getNextKey\<close>
  reads index \<open>(p + j) mod k\<close> and returns the key configured at that index. So no index
  repeats within \<open>k\<close> consecutive calls, every \<open>k\<close> consecutive calls select all \<open>k\<close> indices
  and hand out every configured key, and no index is selected twice in a row.
\<close>

theorem getNextKey_round_robin:
  assumes "2 \<le> length ks" "p < length ks"
  shows "length (selectedIndices ks p n) = n \<and> length (selectedKeys ks p n) = n
       \<and> (\<forall>j<n. selectedIndices ks p n ! j = (p + j) mod length ks)
       \<and> (\<forall>j<n. selectedKeys ks p n ! j = Some (ks ! (selectedIndices ks p n ! j)))
       \<and> (\<forall>i j. i < j \<and> j < n \<and> j < i + length ks \<longrightarrow>
             selectedIndices ks p n ! i \<noteq> selectedIndices ks p n ! j)
       \<and> (\<forall>i. i + length ks \<le> n \<longrightarrow>
             set (take (length ks) (drop i (selectedIndices ks p n))) = {0..<length ks}
           \<and> set (take (length ks) (drop i (selectedKeys ks p n))) = Some ` set ks)
       \<and> (\<forall>j. Suc j < n \<longrightarrow> selectedIndices ks p n ! j \<noteq> selectedIndices ks p n ! Suc j)"
proof -
  let ?k = "length ks" and ?s = "selectedIndices ks p n" and ?t = "selectedKeys ks p n"
  have ne: "ks \<noteq> []" using assms by auto
  have len: "length ?s = n" using ne by (rule selectedIndices_length)
  have lent: "length ?t = n" using ne by (simp add: selectedKeys_def keyCalls_length)
  have nth: "\<And>j. j < n \<Longrightarrow> ?s ! j = (p + j) mod ?k"
    using selectedIndices_nth[OF ne _ assms(2)] by simp
  have key: "\<And>j. j < n \<Longrightarrow> ?t ! j = Some (ks ! (?s ! j))"
    using selectedKeys_nth[OF ne _ assms(2)] nth by simp
  have dis: "\<And>i j. i < j \<Longrightarrow> j < n \<Longrightarrow> j < i + ?k \<Longrightarrow> ?s ! i \<noteq> ?s ! j"
    using nth mod_window_distinct by (metis less_trans)
  have win: "set (take ?k (drop i ?s)) = {0..<?k}" if h: "i + ?k \<le> n" for i
  proof -
    let ?w = "take ?k (drop i ?s)"
    have wl: "length ?w = ?k" using len h by simp
    have wn: "\<And>j. j < ?k \<Longrightarrow> ?w ! j = (p + (i + j)) mod ?k"
      using len h nth by (simp add: add.commute)
    have "distinct ?w"
      unfolding distinct_conv_nth
    proof (intro allI impI)
      fix a b assume a: "a < length ?w" and b: "b < length ?w" and ab: "a \<noteq> b"
      have va: "?w ! a = (p + (i + a)) mod ?k" and vb: "?w ! b = (p + (i + b)) mod ?k"
        using wn a b wl by auto
      show "?w ! a \<noteq> ?w ! b"
      proof (cases "a < b")
        case True
        then have "(p + (i + a)) mod ?k \<noteq> (p + (i + b)) mod ?k"
          using b wl by (intro mod_window_distinct) auto
        then show ?thesis unfolding va vb .
      next
        case False
        then have "b < a" using ab by simp
        then have "(p + (i + b)) mod ?k \<noteq> (p + (i + a)) mod ?k"
          using a wl by (intro mod_window_distinct) auto
        then show ?thesis unfolding va vb by simp
      qed
    qed
    then have "card (set ?w) = ?k" using wl by (simp add: distinct_card)
    moreover have "set ?w \<subseteq> {0..<?k}"
    proof
      fix x assume "x \<in> set ?w"
      then obtain j where "j < length ?w" "?w ! j = x" by (auto simp: in_set_conv_nth)
      then show "x \<in> {0..<?k}" using wn wl ne by auto
    qed
    ultimately show ?thesis by (simp add: card_subset_eq)
  qed
  have winkeys: "set (take ?k (drop i ?t)) = Some ` set ks" if h: "i + ?k \<le> n" for i
  proof -
    have m: "take ?k (drop i ?t) = map (\<lambda>x. Some (ks ! x)) (take ?k (drop i ?s))"
    proof (rule nth_equalityI)
      show "length (take ?k (drop i ?t)) = length (map (\<lambda>x. Some (ks ! x)) (take ?k (drop i ?s)))"
        using len lent h by simp
    next
      fix j assume "j < length (take ?k (drop i ?t))"
      then have j: "j < ?k" by simp
      then have "i + j < n" using h by simp
      then show "take ?k (drop i ?t) ! j = map (\<lambda>x. Some (ks ! x)) (take ?k (drop i ?s)) ! j"
        using j len lent h key[of "i + j"] by simp
    qed
    have "set (take ?k (drop i ?t)) = (\<lambda>x. Some (ks ! x)) ` {0..<?k}"
      unfolding m using win[OF h] by simp
    also have "\<dots> = Some ` set ks"
      by (auto simp: set_conv_nth image_iff)
    finally show ?thesis .
  qed
  have adj: "\<And>j. Suc j < n \<Longrightarrow> ?s ! j \<noteq> ?s ! Suc j"
    using dis assms(1) by simp
  show ?thesis
  proof (intro conjI)
    show "length ?s = n" by (rule len)
    show "length ?t = n" by (rule lent)
    show "\<forall>j<n. ?s ! j = (p + j) mod ?k" using nth by simp
    show "\<forall>j<n. ?t ! j = Some (ks ! (?s ! j))" using key by simp
    show "\<forall>i j. i < j \<and> j < n \<and> j < i + ?k \<longrightarrow> ?s ! i \<noteq> ?s ! j" using dis by simp
    show "\<forall>i. i + ?k \<le> n \<longrightarrow>
             set (take ?k (drop i ?s)) = {0..<?k} \<and> set (take ?k (drop i ?t)) = Some ` set ks"
      using win winkeys by simp
    show "\<forall>j. Suc j < n \<longrightarrow> ?s ! j \<noteq> ?s ! Suc j" using adj by simp
  qed
qed

text \<open>
  Three keys, seven calls from pointer \<open>0\<close>: the fourth call reads index \<open>0\<close> again and the
  fifth hands out the second key.
\<close>

theorem getNextKey_round_robin_witness:
  "(2::nat) \<le> length [js ''k1'', js ''k2'', js ''k3''] \<and> (0::nat) < length [js ''k1'', js ''k2'', js ''k3'']
   \<and> selectedIndices [js ''k1'', js ''k2'', js ''k3''] 0 7 ! 3 = 0
   \<and> selectedKeys [js ''k1'', js ''k2'', js ''k3''] 0 7 ! 4 = Some (js ''k2'')
   \<and> selectedIndices [js ''k1'', js ''k2'', js ''k3''] 0 7 ! 4 \<noteq> selectedIndices [js ''k1'', js ''k2'', js ''k3''] 0 7 ! 5"
proof -
  let ?K = "[js ''k1'', js ''k2'', js ''k3'']"
  have h1: "(2::nat) \<le> length ?K" and h2: "(0::nat) < length ?K" by simp_all
  note t = getNextKey_round_robin[OF h1 h2, of 7]
  from t have a: "\<forall>j<7. selectedIndices ?K 0 7 ! j = (0 + j) mod length ?K" by blast
  from t have k: "\<forall>j<7. selectedKeys ?K 0 7 ! j = Some (?K ! (selectedIndices ?K 0 7 ! j))" by blast
  from t have b: "\<forall>j. Suc j < 7 \<longrightarrow> selectedIndices ?K 0 7 ! j \<noteq> selectedIndices ?K 0 7 ! Suc j"
    by blast
  have "selectedIndices ?K 0 7 ! 3 = (0 + 3) mod length ?K" using a[rule_format, of 3] by simp
  moreover have "selectedIndices ?K 0 7 ! 4 = (0 + 4) mod length ?K" using a[rule_format, of 4] by simp
  moreover have "selectedKeys ?K 0 7 ! 4 = Some (?K ! (selectedIndices ?K 0 7 ! 4))"
    using k[rule_format, of 4] by simp
  moreover have "selectedIndices ?K 0 7 ! 4 \<noteq> selectedIndices ?K 0 7 ! Suc 4"
    using b[rule_format, of 4] by simp
  ultimately show ?thesis using h1 h2 by simp
qed

section \<open>The verification loop of the Repair Protocol\<close>

lemma verify_errors: "errors (verifyRepairedTable h) = [] \<longleftrightarrow> valid (verifyRepairedTable h)"
  by (simp add: verifyRepairedTable_def Let_def)

lemma sumUsage_snoc: "sumUsage (as @ [a]) = addUsage (sumUsage as) (attemptUsage a)"
  by (simp add: sumUsage_def addUsage_def)

lemma failedAttempts_snoc:
  "failedAttempts (as @ [a]) = failedAttempts as + (if validationErrors a \<noteq> [] then 1 else 0)"
  by (simp add: failedAttempts_def)

lemma afterCall_None:
  assumes "loopInv st" "roundsStarted st0 = Suc (roundsStarted st)"
    "attemptLogs st0 = attemptLogs st" "attemptsFailed st0 = attemptsFailed st"
    "historyUsage st0 = historyUsage st"
    "afterCall b st0 got = (None, st')"
  shows "loopInv st' \<and> attemptsFailed st' = Suc (attemptsFailed st)"
  using assms
  by (auto simp: afterCall_def Let_def loopInv_def sumUsage_snoc failedAttempts_snoc verify_errors
           split: if_splits)

lemma afterCall_Some:
  assumes "loopInv st" "roundsStarted st0 = Suc (roundsStarted st)"
    "attemptLogs st0 = attemptLogs st" "attemptsFailed st0 = attemptsFailed st"
    "historyUsage st0 = historyUsage st"
    "afterCall b st0 got = (Some r, st')"
  shows "roundPost st r st'"
  using assms
  by (auto simp: afterCall_def Let_def loopInv_def sumUsage_snoc failedAttempts_snoc verify_errors
                 roundPost_def
           split: if_splits)

lemma googleStep_keeps:
  assumes "googleStep w ai strat st0 = (st1, got0)"
  shows "roundsStarted st1 = roundsStarted st0 \<and> attemptLogs st1 = attemptLogs st0
       \<and> attemptsFailed st1 = attemptsFailed st0 \<and> historyUsage st1 = historyUsage st0"
  using assms by (auto simp: googleStep_def split: if_splits callOutcome.splits)

lemma attemptRound_None:
  assumes inv: "loopInv st" and r: "attemptRound w keys ai strat b st = (None, st')"
  shows "loopInv st' \<and> attemptsFailed st' = Suc (attemptsFailed st)"
proof -
  obtain st1 got0 where g: "googleStep w ai strat (st\<lparr>roundsStarted := Suc (roundsStarted st)\<rparr>) = (st1, got0)"
    by (cases "googleStep w ai strat (st\<lparr>roundsStarted := Suc (roundsStarted st)\<rparr>)") auto
  note k = googleStep_keeps[OF g]
  show ?thesis
  proof (cases "providerUsed st1 = openrouter \<or> \<not> ai \<or> 0 < attemptsFailed st1")
    case True
    obtain res kp calls where p: "poolCall w keys (currentPrompt st1) 0 (keyPointer st1) (providerCalls st1) = (res, kp, calls)"
      by (metis prod_cases3)
    show ?thesis
    proof (cases res)
      case (Inl msg)
      with r g True p show ?thesis by (simp add: attemptRound_def)
    next
      case (Inr got)
      with r g True p have "afterCall b (st1\<lparr>providerUsed := openrouter, keyPointer := kp, providerCalls := calls\<rparr>) got = (None, st')"
        by (simp add: attemptRound_def)
      then show ?thesis using k by (intro afterCall_None[OF inv]) auto
    qed
  next
    case False
    with r g have "afterCall b st1 got0 = (None, st')" by (simp add: attemptRound_def)
    then show ?thesis using k by (intro afterCall_None[OF inv]) auto
  qed
qed

lemma attemptRound_Some:
  assumes inv: "loopInv st" and r: "attemptRound w keys ai strat b st = (Some res, st')"
  shows "roundPost st res st'"
proof -
  obtain st1 got0 where g: "googleStep w ai strat (st\<lparr>roundsStarted := Suc (roundsStarted st)\<rparr>) = (st1, got0)"
    by (cases "googleStep w ai strat (st\<lparr>roundsStarted := Suc (roundsStarted st)\<rparr>)") auto
  note k = googleStep_keeps[OF g]
  show ?thesis
  proof (cases "providerUsed st1 = openrouter \<or> \<not> ai \<or> 0 < attemptsFailed st1")
    case True
    obtain pr kp calls where p: "poolCall w keys (currentPrompt st1) 0 (keyPointer st1) (providerCalls st1) = (pr, kp, calls)"
      by (metis prod_cases3)
    show ?thesis
    proof (cases pr)
      case (Inl msg)
      with r g True p have "res = failureResult msg"
        and "st' = st1\<lparr>providerUsed := openrouter, keyPointer := kp, providerCalls := calls\<rparr>"
        by (auto simp: attemptRound_def)
      then show ?thesis using k by (simp add: roundPost_def failureResult_def)
    next
      case (Inr got)
      with r g True p have "afterCall b (st1\<lparr>providerUsed := openrouter, keyPointer := kp, providerCalls := calls\<rparr>) got = (Some res, st')"
        by (simp add: attemptRound_def)
      then show ?thesis using k by (intro afterCall_Some[OF inv]) auto
    qed
  next
    case False
    with r g have "afterCall b st1 got0 = (Some res, st')" by (simp add: attemptRound_def)
    then show ?thesis using k by (intro afterCall_Some[OF inv]) auto
  qed
qed

lemma repairLoop_post:
  "loopInv st \<Longrightarrow> attemptsFailed st \<le> 3 \<Longrightarrow> repairLoop w keys ai strat b st = (r, st')
   \<Longrightarrow> loopPost r st'"
proof (induction w keys ai strat b st rule: repairLoop.induct)
  case (1 w keys ai strat b st)
  show ?case
  proof (cases "attemptsFailed st < MAX_VERIFICATION_ATTEMPTS")
    case False
    then have a3: "attemptsFailed st = 3" using "1.prems"(2) by (simp add: MAX_VERIFICATION_ATTEMPTS_def)
    from False "1.prems"(3) have "r = exhaustedResult st" "st' = st" by auto
    then show ?thesis using a3 "1.prems"(1)
      by (simp add: loopPost_def exhaustedResult_def loopInv_def)
  next
    case True
    obtain ro st1 where ar: "attemptRound w keys ai strat b st = (ro, st1)"
      by (cases "attemptRound w keys ai strat b st") auto
    show ?thesis
    proof (cases ro)
      case None
      have n: "loopInv st1 \<and> attemptsFailed st1 = Suc (attemptsFailed st)"
        using attemptRound_None[OF "1.prems"(1)] ar None by simp
      have le: "attemptsFailed st1 \<le> 3" using n True by (simp add: MAX_VERIFICATION_ATTEMPTS_def)
      have rl: "repairLoop w keys ai strat b st1 = (r, st')"
        using "1.prems"(3) True ar None by simp
      have i1: "loopInv st1" using n by simp
      show ?thesis by (rule "1.IH"[OF True ar[symmetric] None i1 le rl])
    next
      case (Some res)
      have rp: "roundPost st res st1" using attemptRound_Some[OF "1.prems"(1)] ar Some by simp
      have e: "r = res" "st' = st1" using "1.prems"(3) True ar Some by auto
      have lt: "length (attemptLogs st) < 3"
        using True "1.prems"(1) by (simp add: loopInv_def MAX_VERIFICATION_ATTEMPTS_def)
      show ?thesis using rp lt "1.prems"(1) unfolding e
        by (auto simp: roundPost_def loopPost_def loopInv_def failedAttempts_snoc split: if_splits)
    qed
  qed
qed


lemmas rx_defs = trim_def js_def isWhiteSpace_def rxtest_def Seqs_def Alts_def
  Str_def Chr_def Opt_def Plus_def rxS_def rxD_def rxAlpha_def rxAny_def rxDot_def inRanges_def
  wsRanges_def isLineTerminator_def StrCI_def ciChr_def rxmatch_def removeAll_def
  startsWith_def endsWith_def

lemmas rep_defs = repairTableWithGemini_def attemptRound_def googleStep_def afterCall_def
  cleanupOutput_def verifyRepairedTable_def RX_TABLE_SPAN_def RX_TR_SPAN_def getNextKey_def nth_opt_def
  failureResult_def exhaustedResult_def zeroUsage_def addUsage_def costFor_def
  MAX_VERIFICATION_ATTEMPTS_def Let_def

lemma initial_loopInv:
  "loopInv \<lparr>attemptsFailed = 0, historyUsage = zeroUsage, providerUsed = p, attemptLogs = [],
            currentPrompt = q, keyPointer = k, providerCalls = 0, roundsStarted = 0\<rparr>"
  by (simp add: loopInv_def sumUsage_def zeroUsage_def failedAttempts_def)

lemma repairTableWithGemini_post:
  "repairTableWithGemini w keys ai kp0 p0 b strat = (r, st) \<Longrightarrow> loopPost r st"
  unfolding repairTableWithGemini_def
  by (rule repairLoop_post[OF initial_loopInv]) auto

text \<open>
  C2, as the claim states it, fails: when every key of the pool fails on the first attempt the
  invocation returns the failure object of the outer \<open>catch\<close>, which carries no attempt log,
  and the attempt that threw was never recorded, although one attempt was made.
\<close>

theorem repair_attempt_log_counterexample:
  "\<not> (\<exists>l. log (fst (repairTableWithGemini worldPoolDown [js ''k1''] False 0 (js ''p'') (\<lambda>h e. js ''q'') pool_only)) = Some l
          \<and> length (attempts l)
              = roundsStarted (snd (repairTableWithGemini worldPoolDown [js ''k1''] False 0 (js ''p'') (\<lambda>h e. js ''q'') pool_only)))
   \<and> roundsStarted (snd (repairTableWithGemini worldPoolDown [js ''k1''] False 0 (js ''p'') (\<lambda>h e. js ''q'') pool_only)) = 1
   \<and> attemptLogs (snd (repairTableWithGemini worldPoolDown [js ''k1''] False 0 (js ''p'') (\<lambda>h e. js ''q'') pool_only)) = []
   \<and> error (fst (repairTableWithGemini worldPoolDown [js ''k1''] False 0 (js ''p'') (\<lambda>h e. js ''q'') pool_only))
       = Some ''All OpenRouter keys failed.''"
  by (simp add: rx_defs rep_defs worldPoolDown_def)

text \<open>
  C2, amended. Every invocation of \<open>repairTableWithGemini\<close> makes at most 3 attempts. When it
  returns a log (success, or failure after exhausting the attempts), the log has exactly one
  entry per attempt made; a success after \<open>f\<close> failed validations made \<open>f + 1\<close> attempts, and
  the exhausted failure made exactly 3, all failed. When it returns on an unrecoverable call
  error, the result is a failure that carries no log, and the attempts recorded so far are
  one fewer than the attempts made.
\<close>

theorem repair_attempts_bounded_and_logged:
  assumes "repairTableWithGemini w keys ai kp0 p0 b strat = (r, st)"
  shows "roundsStarted st \<le> 3
       \<and> (case log r of
            Some l \<Rightarrow> length (attempts l) = roundsStarted st
                      \<and> (if success r then Suc (failedAttempts (attempts l)) = roundsStarted st
                          else failedAttempts (attempts l) = 3 \<and> roundsStarted st = 3)
          | None \<Rightarrow> \<not> success r \<and> error r \<noteq> None
                    \<and> roundsStarted st = Suc (length (attemptLogs st)))"
  using repairTableWithGemini_post[OF assms]
  by (auto simp: loopPost_def split: option.splits if_splits)

theorem repair_attempts_bounded_and_logged_witness:
  "roundsStarted (snd (repairTableWithGemini worldNoRows [js ''k1''] True 0 (js ''p'') (\<lambda>h e. js ''q'') hybrid)) \<le> 3
   \<and> (\<exists>l. log (fst (repairTableWithGemini worldNoRows [js ''k1''] True 0 (js ''p'') (\<lambda>h e. js ''q'') hybrid)) = Some l
          \<and> length (attempts l) = 3)
   \<and> \<not> success (fst (repairTableWithGemini worldNoRows [js ''k1''] True 0 (js ''p'') (\<lambda>h e. js ''q'') hybrid))"
proof -
  let ?run = "repairTableWithGemini worldNoRows [js ''k1''] True 0 (js ''p'') (\<lambda>h e. js ''q'') hybrid"
  have e: "?run = (fst ?run, snd ?run)" by simp
  have n: "\<not> success (fst ?run)" and l: "log (fst ?run) \<noteq> None"
    by (simp_all add: rx_defs rep_defs worldNoRows_def)
  from l obtain lg where lg: "log (fst ?run) = Some lg" by auto
  from repair_attempts_bounded_and_logged[OF e] n lg
  have "roundsStarted (snd ?run) \<le> 3" and "length (attempts lg) = roundsStarted (snd ?run)"
    and "roundsStarted (snd ?run) = 3"
    by auto
  then show ?thesis using n lg by simp
qed





section \<open>Backoff\<close>

text \<open>
  The failure branch by itself: for a payload whose \<open>attempt\<close> is below the task's attempts
  less one, the task goes to \<open>RETRY\<close> with \<open>nextRetryAt = now + 5000 * 2 ^ (attempt + 1)\<close> and
  the callback throws.
\<close>

lemma onRepairFailed_retry:
  assumes "attempt job + 1 < (if maxAttempts t = 0 then 3 else maxAttempts t)"
  shows "status (fst (onRepairFailed now job t err)) = RETRY
       \<and> nextRetryAt (fst (onRepairFailed now job t err)) = Some (now + 5000 * 2 ^ (attempt job + 1))
       \<and> (\<exists>msg. snd (onRepairFailed now job t err) = JobThrows msg)"
  using assms by (simp add: onRepairFailed_def Let_def)

text \<open>
  The payload is enqueued with \<open>attempt = 0\<close> and delivered unchanged, so at every delivery the
  worker sees its first attempt: it records 1 attempt and a retry 10000 ms ahead, whatever
  the number of deliveries that have failed, and it never reaches the branch that marks the
  task \<open>FAILED\<close> unless the task allows a single attempt.
\<close>

lemma enqueued_job_retry:
  assumes "maxAttempts t \<noteq> 1"
  shows "fst (onRepairFailed now enqueuedPayload (onPickup enqueuedPayload t) err)
         = t\<lparr>status := RETRY, taskAttempts := 1,
              lastError := Some (case err of None \<Rightarrow> ''Repair failed''
                                 | Some e \<Rightarrow> if e = [] then ''Repair failed'' else e),
              nextRetryAt := Some (now + 10000)\<rparr>"
  using assms by (simp add: onRepairFailed_def onPickup_def enqueuedPayload_def Let_def)

text \<open>
  C3. The claim asks for a delay of \<open>5000 * 2 ^ k\<close> ms after the failed attempt \<open>k\<close>, both in
  \<open>nextRetryAt\<close> and in the redelivery. For a task enqueued by the upload route whose repair
  keeps failing, with the queue's default of 3 attempts: after the first failure the worker
  writes \<open>now + 10000\<close> and the queue redelivers after 5000 ms; after the second failure the
  worker writes \<open>now + 10000\<close> again, not \<open>now + 20000\<close>, and the queue redelivers after
  10000 ms; after the third failure the worker schedules one more retry and the queue drops
  the job, so the task stays in \<open>RETRY\<close>. The worker's exponent is the \<open>attempt\<close> of the
  payload, which never advances, and the queue's delay is half of what the claim asks for.
\<close>

theorem backoff_not_attempt_indexed:
  "map deliveryKey
     (failingDeliveries (repairQueueOptions 3) enqueuedPayload
        (Some ''Validation failed after 3 attempts.'') (\<lambda>i. 100000 * (i + 1)) createdTask 0)
   = [(RETRY, 1, Some (100000 + 10000), Redeliver 5000),
      (RETRY, 1, Some (200000 + 10000), Redeliver 10000),
      (RETRY, 1, Some (300000 + 10000), MoveToFailed)]
   \<and> (5000::nat) \<noteq> 5000 * 2 ^ 1 \<and> (10000::nat) \<noteq> 5000 * 2 ^ 2"
  by code_simp


section \<open>The Grid Builder and pending rowspans\<close>

text \<open>
  C1. The claim asks that a body cell of rowspan \<open>r\<close> in row \<open>i\<close> keeps its columns reserved in
  rows \<open>i + 1 ... i + r - 1\<close>. \<open>buildGrid\<close> sets the pending counter to \<open>r - 1\<close> and decrements
  every counter at the end of the row that set it, so the reservation lasts \<open>r - 2\<close> further
  rows only. With rowspan 2 the cell \<open>z\<close> of the next row is placed at column 0, under the
  spanning cell, and that row gets width 1; with rowspan 3 the second row after the cell is
  no longer reserved either.
\<close>

theorem buildGrid_rowspan_reserved_one_row_short:
  "map cellPlace (bodyCells (buildGrid plainPlatform (Some spanHeaderRow) spanBodyRows))
     = [(0, 0, 1, 2), (0, 1, 1, 1), (1, 0, 1, 1)]
   \<and> rowWidths (buildGrid plainPlatform (Some spanHeaderRow) spanBodyRows) = [2, 1]
   \<and> expectedCols (buildGrid plainPlatform (Some spanHeaderRow) spanBodyRows) = 2
   \<and> map cellPlace (bodyCells (buildGrid plainPlatform (Some spanHeaderRow) spanThreeBodyRows))
     = [(0, 0, 1, 3), (0, 1, 1, 1), (1, 1, 1, 1), (2, 0, 1, 1)]
   \<and> rowWidths (buildGrid plainPlatform (Some spanHeaderRow) spanThreeBodyRows) = [2, 2, 1]"
  by code_simp

section \<open>The LaTeX balance check\<close>

text \<open>
  The two guards that come first in \<open>checkLatexBalance\<close>: a text whose trimmed form is shorter
  than 3 characters is not flagged, and neither is one whose trimmed form starts like a
  currency amount (an optional \<open>R\<close> or \<open>U\<close>, a dollar sign, optional white space, then a
  digit, a point or a comma) or contains \<open>R$\<close>.
\<close>

lemma checkLatexBalance_guards:
  "(length (trim t) < 3 \<longrightarrow> \<not> broken (checkLatexBalance t))
   \<and> (rxtest False RX_CURRENCY_PREFIX (trim t) \<or> rxtest False RX_REAL_SIGN (trim t)
        \<longrightarrow> \<not> broken (checkLatexBalance t))"
  by (auto simp: checkLatexBalance_def Let_def)

text \<open>
  The branch that returns \<open>Orphan symbol\<close> tests for five texts, all shorter than 3
  characters, after the guard for short texts has returned: no text reaches it.
\<close>

lemma checkLatexBalance_orphan_unreachable:
  "reason (checkLatexBalance t) \<noteq> ''Orphan symbol''"
proof -
  have five: "trim t \<in> {js ''{'', js ''}'', js ''$'', js ''($'', js ''$)''} \<Longrightarrow> length (trim t) < 3"
    by (auto simp: js_def)
  show ?thesis using five
    by (auto simp: checkLatexBalance_def Let_def)
qed

text \<open>
  C6. The claim asks that a text which is exactly \<open>{\<close>, \<open>}\<close>, \<open>$\<close>, \<open>($\<close> or \<open>$)\<close> is flagged as
  broken with the reason \<open>Orphan symbol\<close>. \<open>checkLatexBalance\<close> has the branch for it, but
  flags none of the five, with or without white space around them, and returns that reason
  for no text at all: the guard for texts shorter than 3 characters returns first.
\<close>

theorem checkLatexBalance_orphan_not_flagged:
  "map (\<lambda>s. (trim (js s), broken (checkLatexBalance (js s)), reason (checkLatexBalance (js s))))
     [''{'', ''}'', ''$'', ''($'', ''$)'', '' ($ '']
   = [(js ''{'', False, []), (js ''}'', False, []), (js ''$'', False, []),
      (js ''($'', False, []), (js ''$)'', False, []), (js ''($'', False, [])]
   \<and> reason (checkLatexBalance t) \<noteq> ''Orphan symbol''"
proof -
  have "map (\<lambda>s. (trim (js s), broken (checkLatexBalance (js s)), reason (checkLatexBalance (js s))))
     [''{'', ''}'', ''$'', ''($'', ''$)'', '' ($ '']
   = [(js ''{'', False, []), (js ''}'', False, []), (js ''$'', False, []),
      (js ''($'', False, []), (js ''$)'', False, []), (js ''($'', False, [])]"
    by code_simp
  then show ?thesis using checkLatexBalance_orphan_unreachable by simp
qed


section \<open>Ghost columns\<close>

lemma isGhostIssue_createIssue [simp]:
  "isGhostIssue (createIssue ctx sev ty ttl loc html) \<longleftrightarrow> ty = ''GHOST_COLUMNS'' \<or> ty = ''GHOST_COLUMN''"
  by (simp add: isGhostIssue_def createIssue_def)

lemma issueKey_createIssue [simp]:
  "issueKey (createIssue ctx sev ty ttl loc html) = (sev, ty, loc)"
  by (simp add: issueKey_def createIssue_def)

lemma filter_concat_map_empty:
  "(\<And>x. x \<in> set xs \<Longrightarrow> filter P (f x) = []) \<Longrightarrow> filter P (concat (map f xs)) = []"
  by (induction xs) auto

lemma ghost_rule1x1 [simp]: "filter isGhostIssue (rule1x1 ctx html hh n e hs) = []"
  by (simp add: rule1x1_def Let_def)

lemma ghost_ruleEmptyTable [simp]: "filter isGhostIssue (ruleEmptyTable ctx html hh n) = []"
  by (simp add: ruleEmptyTable_def)

lemma ghost_headerCellIssues [simp]: "filter isGhostIssue (headerCellIssues pf ctx html ic) = []"
  by (simp add: headerCellIssues_def Let_def)

lemma ghost_ruleMissingHeaderText [simp]: "filter isGhostIssue (ruleMissingHeaderText ctx html hs) = []"
  by (simp add: ruleMissingHeaderText_def Let_def)

lemma ghost_ruleDuplicateHeaders [simp]: "filter isGhostIssue (ruleDuplicateHeaders ctx html hs) = []"
  by (simp add: ruleDuplicateHeaders_def Let_def)

lemma ghost_rowWidthIssue [simp]: "filter isGhostIssue (rowWidthIssue ctx html e rw) = []"
  by (simp add: rowWidthIssue_def Let_def)

lemma ghost_ruleRowWidths [simp]: "filter isGhostIssue (ruleRowWidths ctx html e ws) = []"
  by (simp add: ruleRowWidths_def filter_concat_map_empty)

lemma ghost_bodyCellIssues [simp]: "filter isGhostIssue (bodyCellIssues pf ctx html fin gc) = []"
  by (simp add: bodyCellIssues_def Let_def)

lemma ghost_holeIssuesOfRow [simp]: "filter isGhostIssue (holeIssuesOfRow ctx html e cells r) = []"
  by (simp add: holeIssuesOfRow_def Let_def filter_concat_map_empty)

lemma ghost_ruleHoles [simp]: "filter isGhostIssue (ruleHoles ctx html fin n e cells) = []"
  by (simp add: ruleHoles_def filter_concat_map_empty)

lemma ghost_ruleInvalidRowspan [simp]: "filter isGhostIssue (ruleInvalidRowspan ctx html doc t hh n) = []"
  by (simp add: ruleInvalidRowspan_def Let_def filter_concat_map_empty)

lemma ghost_ruleBrokenStyle [simp]: "filter isGhostIssue (ruleBrokenStyle ctx html doc t) = []"
  by (simp add: ruleBrokenStyle_def Let_def filter_concat_map_empty)

lemma ghost_ghostColumnIssue [simp]:
  "filter isGhostIssue (ghostColumnIssue ctx html e ch) = ghostColumnIssue ctx html e ch"
  by (simp add: ghostColumnIssue_def Let_def)

lemma filter_concat_map_id:
  "(\<And>x. x \<in> set xs \<Longrightarrow> filter P (f x) = f x) \<Longrightarrow> filter P (concat (map f xs)) = concat (map f xs)"
  by (induction xs) auto

lemma ghost_ruleGhostColumns [simp]:
  "filter isGhostIssue (ruleGhostColumns ctx html e n chc) = ruleGhostColumns ctx html e n chc"
  by (simp add: ruleGhostColumns_def Let_def filter_concat_map_id)

lemma analyzeParsed_ghost:
  "filter isGhostIssue (analyzeParsed pf html ctx doc t)
   = ruleGhostColumns ctx html
       (expectedCols (buildGrid pf (map_option snd (fst (headerAndBodyRows doc t)))
                        (map snd (snd (headerAndBodyRows doc t)))))
       (length (snd (headerAndBodyRows doc t)))
       (colHasContent (buildGrid pf (map_option snd (fst (headerAndBodyRows doc t)))
                        (map snd (snd (headerAndBodyRows doc t)))))"
  by (simp add: analyzeParsed_def Let_def filter_concat_map_empty)

text \<open>The backward loop finds three ghosts exactly when the last three columns are ghosts.\<close>

lemma countLeadingFalse_three:
  "3 \<le> countLeadingFalse xs \<longleftrightarrow> 3 \<le> length xs \<and> \<not> xs ! 0 \<and> \<not> xs ! 1 \<and> \<not> xs ! 2"
proof (cases xs)
  case Nil
  then show ?thesis by simp
next
  case (Cons a as)
  note c1 = this
  show ?thesis
  proof (cases as)
    case Nil
    with c1 show ?thesis by simp
  next
    case (Cons b bs)
    note c2 = this
    show ?thesis
    proof (cases bs)
      case Nil
      with c1 c2 show ?thesis by simp
    next
      case (Cons c cs)
      with c1 c2 show ?thesis by (simp add: numeral_3_eq_3)
    qed
  qed
qed

lemma trailing_three:
  assumes "e \<le> length chc"
  shows "3 \<le> countLeadingFalse (rev (take e chc)) \<longleftrightarrow> threeTrailingGhosts e chc"
proof (cases "3 \<le> e")
  case False
  then have "length (rev (take e chc)) < 3" using assms by simp
  then show ?thesis using False
    by (simp add: countLeadingFalse_three threeTrailingGhosts_def)
next
  case True
  have len: "length (take e chc) = e" using assms by simp
  have n: "\<And>k. k < 3 \<Longrightarrow> rev (take e chc) ! k = chc ! (e - Suc k)"
    using True assms by (simp add: rev_nth)
  have "rev (take e chc) ! 0 = chc ! (e - 1)" "rev (take e chc) ! 1 = chc ! (e - 2)"
    "rev (take e chc) ! 2 = chc ! (e - 3)"
    using n[of 0] n[of 1] n[of 2] by (simp_all add: numeral_2_eq_2 numeral_3_eq_3)
  then show ?thesis using True len
    by (simp add: countLeadingFalse_three threeTrailingGhosts_def)
qed

text \<open>The loop over the columns emits one issue for each ghost column, in column order.\<close>

lemma ghost_per_column:
  "map issueKey (concat (map (ghostColumnIssue ctx html e) (zip [0..<length xs] xs)))
   = map (\<lambda>c. (if c = e - 1 then BAD else WARN, ''GHOST_COLUMN'', atCol c))
       (filter (\<lambda>c. \<not> xs ! c) [0..<length xs])"
proof (induction xs rule: rev_induct)
  case Nil
  then show ?case by simp
next
  case (snoc x xs)
  have f: "filter (\<lambda>c. \<not> (xs @ [x]) ! c) [0..<length xs] = filter (\<lambda>c. \<not> xs ! c) [0..<length xs]"
    by (rule filter_cong) (auto simp: nth_append)
  show ?case using snoc.IH
    by (simp add: f ghostColumnIssue_def Let_def)
qed

lemma ruleGhostColumns_key:
  assumes "e \<le> length chc"
  shows "map issueKey (ruleGhostColumns ctx html e n chc)
   = (if 1 < e \<and> 0 < n then
        (if threeTrailingGhosts e chc then [(BAD, ''GHOST_COLUMNS'', noLoc)]
         else map (\<lambda>c. (if c = e - 1 then BAD else WARN, ''GHOST_COLUMN'', atCol c)) (ghostCols e chc))
      else [])"
proof -
  have len: "length (take e chc) = e" and m: "min (length chc) e = e" using assms by simp_all
  have g: "filter (\<lambda>c. \<not> take e chc ! c) [0..<e] = ghostCols e chc"
    unfolding ghostCols_def by (rule filter_cong) auto
  have per: "map issueKey (concat (map (ghostColumnIssue ctx html e) (zip [0..<e] (take e chc))))
             = map (\<lambda>c. (if c = e - 1 then BAD else WARN, ''GHOST_COLUMN'', atCol c)) (ghostCols e chc)"
    using ghost_per_column[of ctx html e "take e chc"] unfolding len g .
  show ?thesis
  proof (cases "1 < e \<and> 0 < n")
    case False
    then show ?thesis by (auto simp: ruleGhostColumns_def)
  next
    case True
    show ?thesis
    proof (cases "threeTrailingGhosts e chc")
      case True
      then have "3 \<le> countLeadingFalse (rev (take e chc))" using trailing_three[OF assms] by simp
      then show ?thesis using \<open>1 < e \<and> 0 < n\<close> True
        by (simp add: ruleGhostColumns_def Let_def)
    next
      case False
      then have "\<not> 3 \<le> countLeadingFalse (rev (take e chc))" using trailing_three[OF assms] by simp
      then show ?thesis using \<open>1 < e \<and> 0 < n\<close> False per
        by (simp add: ruleGhostColumns_def Let_def m)
    qed
  qed
qed

lemma buildGrid_width:
  "expectedCols (buildGrid pf h b) \<le> length (colHasContent (buildGrid pf h b))"
  by (simp add: buildGrid_def Let_def)

lemma analyzeTable_ghost_filter:
  "filter isGhostIssue (analyzeTable pf html ctx)
   = (case auditedGrid pf html of
        None \<Rightarrow> []
      | Some (g, n) \<Rightarrow> ruleGhostColumns ctx html (expectedCols g) n (colHasContent g))"
  by (simp add: analyzeTable_def auditedGrid_def Let_def analyzeParsed_ghost split: option.splits)

lemma auditedGrid_width:
  "auditedGrid pf html = Some (g, n) \<Longrightarrow> expectedCols g \<le> length (colHasContent g)"
  by (auto simp: auditedGrid_def Let_def buildGrid_width split: if_splits option.splits)

text \<open>
  The ghost-column issues of \<open>analyzeTable\<close> in terms of the grid it builds, read by severity,
  type and location. A table whose analysis stops before the grid (swallowed content,
  markdown, no table, no row) gets none. Otherwise, with \<open>e\<close> the expected columns of the grid
  and a column taken as a ghost when the grid's \<open>colHasContent\<close> is false for it: when
  \<open>e > 1\<close> and the table has a body row, three trailing ghost columns give exactly one \<open>BAD\<close>
  \<open>GHOST_COLUMNS\<close> issue and nothing else, and fewer give one \<open>GHOST_COLUMN\<close> issue for each
  ghost column, in column order, \<open>BAD\<close> for column \<open>e - 1\<close> and \<open>WARN\<close> for the others; when
  \<open>e \<le> 1\<close> or there is no body row there is no ghost-column issue.
\<close>

lemma analyzeTable_ghost_columns:
  "map issueKey (filter isGhostIssue (analyzeTable pf tableHtml ctx))
   = (case auditedGrid pf tableHtml of
        None \<Rightarrow> []
      | Some (g, nBodyRows) \<Rightarrow>
          if 1 < expectedCols g \<and> 0 < nBodyRows then
            (if threeTrailingGhosts (expectedCols g) (colHasContent g)
             then [(BAD, ''GHOST_COLUMNS'', noLoc)]
             else map (\<lambda>c. (if c = expectedCols g - 1 then BAD else WARN, ''GHOST_COLUMN'', atCol c))
                    (ghostCols (expectedCols g) (colHasContent g)))
          else [])"
proof (cases "auditedGrid pf tableHtml")
  case None
  then show ?thesis by (simp add: analyzeTable_ghost_filter)
next
  case (Some gn)
  obtain g n where gn: "gn = (g, n)" by (cases gn) auto
  have w: "expectedCols g \<le> length (colHasContent g)"
    using auditedGrid_width Some gn by blast
  show ?thesis using Some gn ruleGhostColumns_key[OF w, of ctx tableHtml n]
    by (simp add: analyzeTable_ghost_filter)
qed

text \<open>
  A table of four expected columns whose last three are empty in its only body row, and one
  with a single empty last column.
\<close>

lemma analyzeTable_ghost_columns_examples:
  "map issueKey (filter isGhostIssue (analyzeTable trailingPlatform (js ''<table>'') ghostContext))
     = [(BAD, ''GHOST_COLUMNS'', noLoc)]
   \<and> map issueKey (filter isGhostIssue (analyzeTable lastColumnPlatform (js ''<table>'') ghostContext))
     = [(BAD, ''GHOST_COLUMN'', atCol 1)]"
proof -
  have a: "auditedGrid trailingPlatform (js ''<table>'')
           = Some (buildGrid trailingPlatform (Some trailingHeaderRow) [trailingBodyRow], 1)"
    by code_simp
  have a1: "expectedCols (buildGrid trailingPlatform (Some trailingHeaderRow) [trailingBodyRow]) = 4"
    and a2: "colHasContent (buildGrid trailingPlatform (Some trailingHeaderRow) [trailingBodyRow])
             = [True, False, False, False]"
    by code_simp+
  have b: "auditedGrid lastColumnPlatform (js ''<table>'')
           = Some (buildGrid lastColumnPlatform (Some spanHeaderRow) [lastColumnBodyRow], 1)"
    by code_simp
  have b1: "expectedCols (buildGrid lastColumnPlatform (Some spanHeaderRow) [lastColumnBodyRow]) = 2"
    and b2: "colHasContent (buildGrid lastColumnPlatform (Some spanHeaderRow) [lastColumnBodyRow])
             = [True, False]"
    by code_simp+
  have t4: "threeTrailingGhosts 4 [True, False, False, False]"
    and t2: "\<not> threeTrailingGhosts 2 [True, False]" and g2: "ghostCols 2 [True, False] = [1]"
    by code_simp+
  have "map issueKey (filter isGhostIssue (analyzeTable trailingPlatform (js ''<table>'') ghostContext))
     = [(BAD, ''GHOST_COLUMNS'', noLoc)]"
    using analyzeTable_ghost_columns[of trailingPlatform "js ''<table>''" ghostContext]
    by (simp add: a a1 a2 t4)
  moreover have "map issueKey (filter isGhostIssue (analyzeTable lastColumnPlatform (js ''<table>'') ghostContext))
     = [(BAD, ''GHOST_COLUMN'', atCol 1)]"
    using analyzeTable_ghost_columns[of lastColumnPlatform "js ''<table>''" ghostContext]
    by (simp add: b b1 b2 t2 g2)
  ultimately show ?thesis by simp
qed

text \<open>
  C4. The claim takes a column as a ghost when no row contributes content to it, and asks
  for ghost-column issues for those columns only. In the table with header \<open>A | B\<close>, a first
  body row of \<open>x\<close> (rowspan 2) and an empty cell, and a second body row of \<open>z\<close>, the cell \<open>z\<close>
  has content and lies in column \<open>B\<close>: column 0 of its row is taken by \<open>x\<close>. The grid
  releases column 0 one row early (the pending counter of \<open>x\<close> is back to 0 after the first
  row, where the cursor would skip a column still pending), places \<open>z\<close> at column 0, and
  leaves column 1 without content: \<open>analyzeTable\<close> reports a \<open>BAD\<close> \<open>GHOST_COLUMN\<close> for column
  1, a column to which the second row contributes content.
\<close>

theorem analyzeTable_ghost_column_with_content:
  "map issueKey (filter isGhostIssue (analyzeTable rowspanGhostPlatform (js ''<table>'') ghostContext))
     = [(BAD, ''GHOST_COLUMN'', atCol 1)]
   \<and> auditedGrid rowspanGhostPlatform (js ''<table>'')
     = Some (buildGrid rowspanGhostPlatform (Some spanHeaderRow) rowspanGhostBodyRows, 2)
   \<and> map placedText (bodyCells (buildGrid rowspanGhostPlatform (Some spanHeaderRow) rowspanGhostBodyRows))
     = [(js ''x'', 0, 0, 1, 2), ([], 0, 1, 1, 1), (js ''z'', 1, 0, 1, 1)]
   \<and> colHasContent (buildGrid rowspanGhostPlatform (Some spanHeaderRow) rowspanGhostBodyRows)
     = [True, False]
   \<and> cellHasContent rowspanGhostPlatform (cellEl ''td'' [] ''z'')
   \<and> pendingRowspans (placeRow rowspanGhostPlatform
         \<lparr>pendingRowspans = [], bodyCellsAcc = [], colHasContentAcc = [False, False],
          rowWidthsAcc = [0, 0]\<rparr> (0, hd rowspanGhostBodyRows)) = [0]
   \<and> nextFreeCol [1] 0 = 1"
  by code_simp

section \<open>The scenario of the ghost column\<close>

text \<open>
  C5, as the claim states it, fails: the audit of the scenario yields no \<open>BAD\<close> \<open>GHOST_COLUMN\<close>
  issue at column 0, and no \<open>BAD\<close> issue at all. The severity of a ghost column depends on
  its position only: column 0 is not the last expected column.
\<close>

theorem scenario_ghost_column_counterexample:
  "(BAD, ''GHOST_COLUMN'', atCol 0) \<notin> set (map issueKey (issues (auditData ghostPlatform ghostDocument)))
   \<and> bad (stats (auditData ghostPlatform ghostDocument)) = 0"
  by code_simp

text \<open>
  C5, amended. Auditing the one-question document yields exactly one issue, a \<open>WARN\<close>
  \<open>GHOST_COLUMN\<close> located at column 0, and so no issue for column 1. The platform of the
  scenario parses the field and the \<open>outerHTML\<close> of its table into the same tree.
\<close>

theorem scenario_ghost_column:
  "map issueKey (issues (auditData ghostPlatform ghostDocument)) = [(WARN, ''GHOST_COLUMN'', atCol 0)]
   \<and> stats (auditData ghostPlatform ghostDocument) = \<lparr>totalTables = 1, bad = 0, warn = 1\<rparr>
   \<and> extractTopLevelTables ghostPlatform ghostValue = [ghostTable]
   \<and> outerHTML ghostPlatform ghostTable = ghostTableHtml"
  by code_simp


section \<open>The expected-column hint\<close>

lemma isElement_withAttrs [simp]: "isElement (withAttrs f n) = isElement n"
  by (cases n) simp_all

lemma tagOf_withAttrs [simp]: "tagOf (withAttrs f n) = tagOf n"
  by (cases n) simp_all

lemma childNodes_withAttrs [simp]: "childNodes (withAttrs f n) = map (withAttrs f) (childNodes n)"
  by (cases n) simp_all

lemma belowList_withAttrs:
  assumes "\<And>c p. c \<in> set cs \<Longrightarrow> below p (withAttrs f c) = map (apsnd (withAttrs f)) (below p c)"
  shows "belowList p i (map (withAttrs f) cs) = map (apsnd (withAttrs f)) (belowList p i cs)"
  using assms by (induction cs arbitrary: i) simp_all

lemma below_withAttrs: "below p (withAttrs f n) = map (apsnd (withAttrs f)) (below p n)"
  by (induction n arbitrary: p) (simp_all add: belowList_withAttrs)

lemma nodeAt_withAttrs: "nodeAt (withAttrs f n) p = map_option (withAttrs f) (nodeAt n p)"
  by (induction p arbitrary: n) simp_all

lemma filter_tags_withAttrs:
  "filter (\<lambda>(p, e). matchesSel d1 sc (Tags ts) p e) (map (apsnd (withAttrs f)) xs)
   = map (apsnd (withAttrs f)) (filter (\<lambda>(p, e). matchesSel d2 sc (Tags ts) p e) xs)"
  by (induction xs) auto

lemma querySelectorAll_withAttrs:
  "querySelectorAll (withAttrs f doc) sc (Tags ts)
   = map (apsnd (withAttrs f)) (querySelectorAll doc sc (Tags ts))"
  by (cases "nodeAt doc sc")
     (simp_all add: querySelectorAll_def nodeAt_withAttrs below_withAttrs filter_tags_withAttrs)

lemma Max_insert_max:
  assumes "finite S"
  shows "Max (insert (max a b) S) = Max (insert a (insert b S))"
proof (cases "S = {}")
  case True
  then show ?thesis by (simp add: max.commute)
next
  case False
  then show ?thesis using assms by (simp add: max.assoc)
qed

lemma foldl_max_rows:
  "foldl (\<lambda>mx x. let c = g x in if mx < c then c else mx) m xs = Max (insert m (g ` set xs))"
proof (induction xs arbitrary: m)
  case Nil
  then show ?case by simp
next
  case (Cons x xs)
  have step: "(if m < g x then g x else m) = max m (g x)" by (auto simp: max_def)
  have "foldl (\<lambda>mx x. let c = g x in if mx < c then c else mx) m (x # xs)
        = foldl (\<lambda>mx x. let c = g x in if mx < c then c else mx) (max m (g x)) xs"
    by (simp add: Let_def step)
  also have "\<dots> = Max (insert (max m (g x)) (g ` set xs))" by (rule Cons.IH)
  also have "\<dots> = Max (insert m (insert (g x) (g ` set xs)))" by (rule Max_insert_max) simp
  finally show ?case by simp
qed

lemma countCellsPerRow_withAttrs: "countCellsPerRow (withAttrs f doc) = countCellsPerRow doc"
proof -
  have q: "querySelector (withAttrs f doc) [] (Tags [''table''])
           = map_option (apsnd (withAttrs f)) (querySelector doc [] (Tags [''table'']))"
    by (simp add: querySelector_def querySelectorAll_withAttrs split: list.splits)
  have fl: "\<And>h m xs. foldl (\<lambda>mx tr. h mx (fst tr)) m (map (apsnd (withAttrs f)) xs)
                      = foldl (\<lambda>mx tr. h mx (fst tr)) m xs"
    subgoal for h m xs by (induction xs arbitrary: m) simp_all
    done
  show ?thesis
    unfolding countCellsPerRow_def q
    by (cases "querySelector doc [] (Tags [''table''])")
       (simp_all add: querySelectorAll_withAttrs
          fl[of "\<lambda>mx p. let c = length (querySelectorAll doc p (Tags [''td'', ''th''])) in if mx < c then c else mx"])
qed

text \<open>
  C10. \<open>countExpectedCols\<close> returns a number for every input: \<open>0\<close> when the parser throws or
  the document has no table, and otherwise the greatest number of \<open>td\<close>/\<open>th\<close> elements below
  a \<open>tr\<close> of the first table (\<open>0\<close> when it has no \<open>tr\<close>). Attributes are not read: the same
  document with any other attributes, \<open>colspan\<close> included, gives the same number.
\<close>

theorem countExpectedCols_raw_cells:
  "countExpectedCols tryParse html
   = (case tryParse html of
        Inl e \<Rightarrow> 0
      | Inr doc \<Rightarrow>
          (case querySelector doc [] (Tags [''table'']) of
             None \<Rightarrow> 0
           | Some t \<Rightarrow>
               Max (insert 0 ((\<lambda>tr. length (querySelectorAll doc (fst tr) (Tags [''td'', ''th''])))
                              ` set (querySelectorAll doc (fst t) (Tags [''tr'']))))))
   \<and> (\<forall>doc f. tryParse html = Inr doc
         \<longrightarrow> countExpectedCols (\<lambda>s. Inr (withAttrs f doc)) html = countExpectedCols tryParse html)"
  by (simp add: countExpectedCols_def countCellsPerRow_def foldl_max_rows
                countCellsPerRow_withAttrs[unfolded countCellsPerRow_def]
           split: sum.splits option.splits)

text \<open>
  On the table whose header cell has \<open>colspan="2"\<close> the hint is 1 raw cell per row, with or
  without the attribute, while the Grid Builder expects 2 columns.
\<close>

theorem countExpectedCols_raw_cells_witness:
  "countExpectedCols (\<lambda>s. Inr (inDocument [colspanTable])) (js ''<table>'') = 1
   \<and> countExpectedCols (\<lambda>s. Inr (withAttrs (\<lambda>as. []) (inDocument [colspanTable]))) (js ''<table>'') = 1
   \<and> map_option (expectedCols \<circ> fst)
        (auditedGrid (plainPlatform\<lparr>parse := (\<lambda>s. inDocument [colspanTable])\<rparr>) (js ''<table>''))
      = Some 2
   \<and> countExpectedCols (\<lambda>s. Inl (Error ''parse'')) (js ''<table>'') = 0"
proof -
  have a: "countExpectedCols (\<lambda>s. Inr (inDocument [colspanTable])) (js ''<table>'') = 1"
    and g: "map_option (expectedCols \<circ> fst)
        (auditedGrid (plainPlatform\<lparr>parse := (\<lambda>s. inDocument [colspanTable])\<rparr>) (js ''<table>''))
      = Some 2"
    by code_simp+
  from countExpectedCols_raw_cells[of "\<lambda>s. Inr (inDocument [colspanTable])" "js ''<table>''"]
  have b: "countExpectedCols (\<lambda>s. Inr (withAttrs (\<lambda>as. []) (inDocument [colspanTable]))) (js ''<table>'')
           = countExpectedCols (\<lambda>s. Inr (inDocument [colspanTable])) (js ''<table>'')"
    by blast
  from countExpectedCols_raw_cells[of "\<lambda>s. Inl (Error ''parse'')" "js ''<table>''"]
  have c: "countExpectedCols (\<lambda>s. Inl (Error ''parse'')) (js ''<table>'') = 0"
    by simp
  show ?thesis using a b c g by simp
qed


section \<open>Output reconstruction\<close>

text \<open>Paths below a node: they extend the starting path, and they lead to the element listed.\<close>

lemma belowList_prefix:
  assumes "\<And>c p. c \<in> set cs \<Longrightarrow> below p c = map (\<lambda>(q, e). (p @ q, e)) (below [] c)"
  shows "belowList p i cs = map (\<lambda>(q, e). (p @ q, e)) (belowList [] i cs)"
  using assms
proof (induction cs arbitrary: i)
  case Nil
  then show ?case by simp
next
  case (Cons c cs)
  have a: "below (p @ [i]) c = map (\<lambda>(q, e). ((p @ [i]) @ q, e)) (below [] c)"
    by (rule Cons.prems) simp
  have b: "below [i] c = map (\<lambda>(q, e). ([i] @ q, e)) (below [] c)"
    by (rule Cons.prems) simp
  have c: "below (p @ [i]) c = map (\<lambda>(q, e). (p @ q, e)) (below [i] c)"
    unfolding a b by (simp add: comp_def split_def)
  have d: "belowList p (Suc i) cs = map (\<lambda>(q, e). (p @ q, e)) (belowList [] (Suc i) cs)"
    by (rule Cons.IH) (rule Cons.prems, simp)
  show ?case by (simp add: c d)
qed

lemma below_prefix: "below p n = map (\<lambda>(q, e). (p @ q, e)) (below [] n)"
proof (induction n arbitrary: p)
  case (Element t as cs)
  have "belowList p 0 cs = map (\<lambda>(q, e). (p @ q, e)) (belowList [] 0 cs)"
    by (rule belowList_prefix) (rule Element.IH)
  then show ?case by simp
next
  case (Text s)
  show ?case by simp
qed

lemma belowList_Cons:
  "belowList [] i (c # cs)
   = (if isElement c then [([i], c)] else []) @ map (\<lambda>(q, e). (i # q, e)) (below [] c)
     @ belowList [] (Suc i) cs"
  using below_prefix[of "[i]" c] by simp

lemma belowList_longer:
  assumes "\<And>c p q e. c \<in> set cs \<Longrightarrow> (q, e) \<in> set (below p c) \<Longrightarrow> length p < length q"
  shows "(q, e) \<in> set (belowList p i cs) \<Longrightarrow> length p < length q"
  using assms
proof (induction cs arbitrary: i)
  case Nil
  then show ?case by simp
next
  case (Cons c cs)
  from Cons.prems(1) consider "q = p @ [i]" | "(q, e) \<in> set (below (p @ [i]) c)"
    | "(q, e) \<in> set (belowList p (Suc i) cs)"
    by (auto split: if_splits)
  then show ?case
  proof cases
    case 1
    then show ?thesis by simp
  next
    case 2
    then show ?thesis using Cons.prems(2)[of c q e "p @ [i]"] by simp
  next
    case 3
    have "\<And>c' p' q' e'. c' \<in> set cs \<Longrightarrow> (q', e') \<in> set (below p' c') \<Longrightarrow> length p' < length q'"
      using Cons.prems(2) by auto
    then show ?thesis using Cons.IH[OF 3] by blast
  qed
qed

lemma below_longer: "(q, e) \<in> set (below p n) \<Longrightarrow> length p < length q"
proof (induction n arbitrary: p q e)
  case (Element t as cs)
  then show ?case using belowList_longer[of cs q e p 0] by auto
next
  case (Text s)
  then show ?case by simp
qed

lemma below_nonempty: "(q, e) \<in> set (below [] n) \<Longrightarrow> q \<noteq> []"
  using below_longer[of q e "[]" n] by auto

lemma belowList_nodeAt:
  assumes "\<And>c q e. c \<in> set cs \<Longrightarrow> (q, e) \<in> set (below [] c) \<Longrightarrow> nodeAt c q = Some e"
    and "cs0 = pre @ cs" and "length pre = i"
  shows "(q, e) \<in> set (belowList [] i cs) \<Longrightarrow> nodeAt (Element t as cs0) q = Some e"
  using assms
proof (induction cs arbitrary: i pre)
  case Nil
  then show ?case by simp
next
  case (Cons c cs)
  have i: "i < length cs0" "cs0 ! i = c" using Cons.prems(3,4) by auto
  from Cons.prems(1) consider "q = [i] \<and> e = c"
    | q' where "q = i # q'" "(q', e) \<in> set (below [] c)"
    | "(q, e) \<in> set (belowList [] (Suc i) cs)"
    by (auto simp: belowList_Cons simp del: belowList.simps split: if_splits)
  then show ?case
  proof cases
    case 1
    then show ?thesis using i by simp
  next
    case 2
    then show ?thesis using i Cons.prems(2)[of c q' e] by simp
  next
    case 3
    have "cs0 = (pre @ [c]) @ cs" "length (pre @ [c]) = Suc i" using Cons.prems(3,4) by simp_all
    then show ?thesis using Cons.IH[OF 3 _ \<open>cs0 = (pre @ [c]) @ cs\<close>] Cons.prems(2) by simp
  qed
qed

lemma below_nodeAt: "(q, e) \<in> set (below [] n) \<Longrightarrow> nodeAt n q = Some e"
proof (induction n arbitrary: q e)
  case (Element t as cs)
  show ?case
    using belowList_nodeAt[of cs cs "[]" 0 q e t as] Element by simp
next
  case (Text s)
  then show ?case by simp
qed

text \<open>The ancestors of a path, seen from the child it enters.\<close>

lemma ancestorsOf_Cons:
  "ancestorsOf n (j # q) = n # List.map_filter (\<lambda>k. nodeAt n (j # take k q)) [0..<length q]"
proof -
  have "[0..<length (j # q)] = 0 # map Suc [0..<length q]"
    by (simp add: upt_conv_Cons map_Suc_upt del: upt_Suc)
  then show ?thesis
    by (simp add: ancestorsOf_def List.map_filter_def comp_def filter_map del: upt_Suc)
qed

lemma ancestorsOf_child:
  assumes "j < length (childNodes n)"
  shows "drop (Suc 0) (ancestorsOf n (j # q)) = ancestorsOf (childNodes n ! j) q"
  using assms by (subst ancestorsOf_Cons) (simp add: ancestorsOf_def)

lemma ancestorsOf_self:
  assumes "q \<noteq> []"
  shows "ancestorsOf c q = c # drop (Suc 0) (ancestorsOf c q)"
proof -
  obtain j q' where "q = j # q'" using assms by (cases q) auto
  then show ?thesis by (simp add: ancestorsOf_Cons)
qed

lemma table_above_child:
  assumes "j < length (childNodes n)" and "q \<noteq> []"
  shows "list_ex P (drop (Suc 0) (ancestorsOf n (j # q)))
         \<longleftrightarrow> P (childNodes n ! j) \<or> list_ex P (drop (Suc 0) (ancestorsOf (childNodes n ! j) q))"
proof -
  have "list_ex P (drop (Suc 0) (ancestorsOf n (j # q))) = list_ex P (ancestorsOf (childNodes n ! j) q)"
    using ancestorsOf_child[OF assms(1)] by simp
  also have "\<dots> = list_ex P (childNodes n ! j # drop (Suc 0) (ancestorsOf (childNodes n ! j) q))"
    using ancestorsOf_self[OF assms(2), of "childNodes n ! j"] by simp
  also have "\<dots> = (P (childNodes n ! j) \<or> list_ex P (drop (Suc 0) (ancestorsOf (childNodes n ! j) q)))"
    by (simp only: list_ex_iff) simp
  finally show ?thesis .
qed

lemma table_above_single: "drop (Suc 0) (ancestorsOf n [j]) = []"
  by (subst ancestorsOf_Cons) (simp add: List.map_filter_def)

text \<open>
  The tables selected by the ancestor walk are the tables met first when descending from
  the body.
\<close>

lemma topLevelTables_kept: "topLevelTables n = filter (keptTable n) (below [] n)"
  apply (simp add: topLevelTables_def querySelectorAll_def)
  apply (rule filter_cong)
   apply simp
  apply (auto simp: keptTable_def split: prod.splits)
  done

lemma outerTables_alt:
  "outerTables c = (if tagOf c = ''table'' then [c] else outerTablesOf (childNodes c))"
  by (cases c) simp_all

lemma table_isElement: "tagOf c = ''table'' \<Longrightarrow> isElement c"
  by (cases c) simp_all

lemma kept_in_child:
  assumes "j < length (childNodes n)" and "childNodes n ! j = c"
  shows "filter (keptTable n) (map (\<lambda>(q, e). (j # q, e)) (below [] c))
         = (if tagOf c = ''table'' then []
            else map (\<lambda>(q, e). (j # q, e)) (filter (keptTable c) (below [] c)))"
proof -
  have k: "\<And>q e. (q, e) \<in> set (below [] c)
             \<Longrightarrow> keptTable n (j # q, e) \<longleftrightarrow> tagOf c \<noteq> ''table'' \<and> keptTable c (q, e)"
    using table_above_child[OF assms(1), of _ "\<lambda>a. tagOf a = ''table''"] assms(2) below_nonempty
    by (auto simp: keptTable_def)
  have "filter (keptTable n) (map (\<lambda>(q, e). (j # q, e)) (below [] c))
        = map (\<lambda>(q, e). (j # q, e))
            (filter (\<lambda>t. tagOf c \<noteq> ''table'' \<and> keptTable c t) (below [] c))"
    unfolding filter_map by (rule arg_cong[where f = "map _"], rule filter_cong) (auto simp: k)
  then show ?thesis by simp
qed

lemma kept_list:
  assumes "\<And>c. c \<in> set cs \<Longrightarrow> map snd (filter (keptTable c) (below [] c)) = outerTablesOf (childNodes c)"
    and "childNodes n = pre @ cs" and "length pre = i"
  shows "map snd (filter (keptTable n) (belowList [] i cs)) = outerTablesOf cs"
  using assms
proof (induction cs arbitrary: i pre)
  case Nil
  then show ?case by simp
next
  case (Cons c cs)
  have i: "i < length (childNodes n)" "childNodes n ! i = c" using Cons.prems(2,3) by auto
  have rest: "map snd (filter (keptTable n) (belowList [] (Suc i) cs)) = outerTablesOf cs"
    using Cons.IH[of "pre @ [c]" "Suc i"] Cons.prems by simp
  have self: "keptTable n ([i], c) \<longleftrightarrow> tagOf c = ''table''"
    by (simp add: keptTable_def table_above_single)
  have sub: "map snd (filter (keptTable c) (below [] c)) = outerTablesOf (childNodes c)"
    using Cons.prems(1) by simp
  have unprefix: "\<And>xs. map snd (map (\<lambda>(q, e). (i # q, e)) xs) = map snd xs"
    subgoal for xs by (induction xs) auto
    done
  have inner: "map snd (filter (keptTable n) (map (\<lambda>(q, e). (i # q, e)) (below [] c)))
               = (if tagOf c = ''table'' then [] else outerTablesOf (childNodes c))"
    unfolding kept_in_child[OF i] using sub unprefix[of "filter (keptTable c) (below [] c)"]
    by (cases "tagOf c = ''table''") simp_all
  have first: "map snd (filter (keptTable n) (if isElement c then [([i], c)] else []))
               = (if tagOf c = ''table'' then [c] else [])"
    using self table_isElement[of c] by auto
  have "map snd (filter (keptTable n) (belowList [] i (c # cs)))
        = map snd (filter (keptTable n) (if isElement c then [([i], c)] else []))
          @ map snd (filter (keptTable n) (map (\<lambda>(q, e). (i # q, e)) (below [] c)))
          @ map snd (filter (keptTable n) (belowList [] (Suc i) cs))"
    unfolding belowList_Cons by simp
  also have "\<dots> = outerTables c @ outerTablesOf cs"
    unfolding first inner rest outerTables_alt by simp
  finally show ?case by simp
qed

lemma kept_outerTables:
  "map snd (filter (keptTable n) (below [] n)) = outerTablesOf (childNodes n)"
proof (induction n)
  case (Element t as cs)
  show ?case using kept_list[of cs "Element t as cs" "[]" 0] Element by simp
next
  case (Text s)
  then show ?case by simp
qed

lemma topLevelTables_outerTables: "map snd (topLevelTables body) = outerTablesOf (childNodes body)"
  by (simp add: topLevelTables_kept kept_outerTables)

text \<open>A replacement changes the tokens of the replaced node and nothing before or after them.\<close>

lemma tokensOf_append: "tokensOf (xs @ ys) = tokensOf xs @ tokensOf ys"
  by (induction xs) simp_all

lemma tokensOf_split:
  assumes "i < length cs"
  shows "tokensOf cs = tokensOf (take i cs) @ tokens (cs ! i) @ tokensOf (drop (Suc i) cs)"
proof -
  have "cs = take i cs @ [cs ! i] @ drop (Suc i) cs" using assms by (simp add: id_take_nth_drop)
  then have "tokensOf cs = tokensOf (take i cs @ [cs ! i] @ drop (Suc i) cs)" by simp
  then show ?thesis by (simp add: tokensOf_append)
qed

lemma nodeAt_Text: "nodeAt (Text s) p = Some x \<Longrightarrow> p = []"
  by (cases p) simp_all

lemma tokens_replaceAt:
  assumes "nodeAt n q = Some tgt" and "q \<noteq> []"
  shows "\<exists>pre post. tokens n = pre @ tokens tgt @ post
                   \<and> tokens (replaceAt n q rs) = pre @ tokensOf rs @ post"
  using assms
proof (induction n q rs arbitrary: tgt rule: replaceAt.induct)
  case (1 t as cs i rs)
  then have i: "i < length cs" and tgt: "tgt = cs ! i" by (auto split: if_splits)
  have "tokens (Element t as cs)
        = (Open t as # tokensOf (take i cs)) @ tokens tgt @ (tokensOf (drop (Suc i) cs) @ [Close t])"
    using tokensOf_split[OF i] tgt by simp
  moreover have "tokens (replaceAt (Element t as cs) [i] rs)
        = (Open t as # tokensOf (take i cs)) @ tokensOf rs @ (tokensOf (drop (Suc i) cs) @ [Close t])"
    using i by (simp add: tokensOf_append)
  ultimately show ?case by blast
next
  case (2 t as cs i j p rs)
  then have i: "i < length cs" and at: "nodeAt (cs ! i) (j # p) = Some tgt"
    by (auto split: if_splits)
  from "2.IH"[OF i at] obtain pre post where
    a: "tokens (cs ! i) = pre @ tokens tgt @ post"
    and b: "tokens (replaceAt (cs ! i) (j # p) rs) = pre @ tokensOf rs @ post"
    by auto
  have len: "i < length (cs[i := replaceAt (cs ! i) (j # p) rs])" using i by simp
  have "tokens (Element t as cs)
        = (Open t as # tokensOf (take i cs) @ pre) @ tokens tgt
          @ (post @ tokensOf (drop (Suc i) cs) @ [Close t])"
    using tokensOf_split[OF i] a by simp
  moreover have "tokens (replaceAt (Element t as cs) (i # j # p) rs)
        = (Open t as # tokensOf (take i cs) @ pre) @ tokensOf rs
          @ (post @ tokensOf (drop (Suc i) cs) @ [Close t])"
    using i tokensOf_split[OF len] b by simp
  ultimately show ?case by blast
qed (auto dest: nodeAt_Text)

lemma topLevelTables_target:
  assumes "k < length (topLevelTables body)"
  shows "nodeAt body (fst (topLevelTables body ! k)) = Some (outerTablesOf (childNodes body) ! k)
       \<and> fst (topLevelTables body ! k) \<noteq> []"
proof -
  obtain q e where qe: "topLevelTables body ! k = (q, e)" by (cases "topLevelTables body ! k") auto
  have "topLevelTables body ! k \<in> set (filter (keptTable body) (below [] body))"
    using nth_mem[OF assms] by (simp only: topLevelTables_kept)
  then have m: "(q, e) \<in> set (below [] body)" using qe by simp
  have "map snd (topLevelTables body) ! k = snd (topLevelTables body ! k)"
    using assms by (rule nth_map)
  then have s: "e = outerTablesOf (childNodes body) ! k"
    using qe topLevelTables_outerTables[of body] by simp
  show ?thesis using below_nodeAt[OF m] below_nonempty[OF m] qe s by simp
qed

text \<open>
  What the \<open>try\<close> block does with the library at hand, on the field \<open>h\<close> parsed inside
  \<open>body\<close> tags: the replacement the function is written for. The top-level tables are the
  tables met first when descending from the body, in document order. Without a body, or
  with an index at or beyond their number, the result is \<open>h\<close> itself. With an index \<open>i\<close>
  within range the target is the node at the path of the \<open>i\<close>-th top-level table, and the
  result is the serialisation of the body with the node at that path removed when \<open>m\<close> trims
  to the empty string, exchanged for the first table element of \<open>m\<close> when there is one, and
  left in place when \<open>m\<close> holds no table; the tokens of the body before and after the target
  are the same. With a negative index nothing is replaced: the result is \<open>h\<close> or the
  serialisation of the parsed body.
\<close>

lemma domReplaceWith_nth_top_level_table:
  "case querySelector (parse pf (js ''<body>'' @ h @ js ''</body>'')) [] (Tags [''body'']) of
     None \<Rightarrow> domReplaceWith pf fragment h m i = h
   | Some b \<Rightarrow>
       map snd (topLevelTables (snd b)) = outerTablesOf (childNodes (snd b))
     \<and> (int (length (topLevelTables (snd b))) \<le> i \<longrightarrow> domReplaceWith pf fragment h m i = h)
     \<and> (0 \<le> i \<and> i < int (length (topLevelTables (snd b))) \<longrightarrow>
          (\<exists>path target body' pre post.
              topLevelTables (snd b) ! nat i = (path, target)
            \<and> nodeAt (snd b) path = Some target
            \<and> body' = (if trim m = [] then replaceAt (snd b) path []
                        else case querySelector (Element ''div'' [] (fragment m)) [] (Tags [''table'']) of
                               None \<Rightarrow> snd b
                             | Some nt \<Rightarrow> replaceAt (snd b) path [snd nt])
            \<and> domReplaceWith pf fragment h m i = innerHTML pf body'
            \<and> tokens (snd b) = pre @ tokens target @ post
            \<and> tokens body' = pre
                @ (if trim m = [] then []
                   else case querySelector (Element ''div'' [] (fragment m)) [] (Tags [''table'']) of
                          None \<Rightarrow> tokens target
                        | Some nt \<Rightarrow> tokens (snd nt))
                @ post))
     \<and> (i < 0 \<longrightarrow> domReplaceWith pf fragment h m i = h
                   \<or> domReplaceWith pf fragment h m i = innerHTML pf (snd b))"
proof (cases "querySelector (parse pf (js ''<body>'' @ h @ js ''</body>'')) [] (Tags [''body''])")
  case None
  then show ?thesis by (simp add: domReplaceWith_def)
next
  case (Some b)
  let ?body = "snd b"
  let ?tops = "topLevelTables ?body"
  let ?outer = "outerTablesOf (childNodes ?body)"
  have ms: "map snd ?tops = ?outer" by (rule topLevelTables_outerTables)
  have beyond: "int (length ?tops) \<le> i \<Longrightarrow> domReplaceWith pf fragment h m i = h"
    using Some by (simp add: domReplaceWith_def Let_def)
  have within: "\<exists>path target body' pre post.
              ?tops ! nat i = (path, target)
            \<and> nodeAt ?body path = Some target
            \<and> body' = (if trim m = [] then replaceAt ?body path []
                        else case querySelector (Element ''div'' [] (fragment m)) [] (Tags [''table'']) of
                               None \<Rightarrow> ?body
                             | Some nt \<Rightarrow> replaceAt ?body path [snd nt])
            \<and> domReplaceWith pf fragment h m i = innerHTML pf body'
            \<and> tokens ?body = pre @ tokens target @ post
            \<and> tokens body' = pre
                @ (if trim m = [] then []
                   else case querySelector (Element ''div'' [] (fragment m)) [] (Tags [''table'']) of
                          None \<Rightarrow> tokens target
                        | Some nt \<Rightarrow> tokens (snd nt))
                @ post"
    if r: "0 \<le> i" "i < int (length ?tops)"
  proof -
    have k: "nat i < length ?tops" using r by simp
    obtain path target where pt: "?tops ! nat i = (path, target)" by (cases "?tops ! nat i") auto
    note tg = topLevelTables_target[OF k]
    have "map snd ?tops ! nat i = snd (?tops ! nat i)" using k by (rule nth_map)
    then have tgt: "?outer ! nat i = target" using ms pt by simp
    have at: "nodeAt ?body path = Some target" and ne: "path \<noteq> []"
      using tg pt tgt by simp_all
    have sel: "\<not> int (length ?tops) \<le> i" using r by simp
    show ?thesis
    proof (cases "trim m = []")
      case True
      from tokens_replaceAt[OF at ne, of "[]"] obtain pre post where
        a: "tokens ?body = pre @ tokens target @ post"
        and b: "tokens (replaceAt ?body path []) = pre @ tokensOf [] @ post"
        by blast
      have "domReplaceWith pf fragment h m i = innerHTML pf (replaceAt ?body path [])"
        using Some sel r(1) True pt by (simp add: domReplaceWith_def Let_def)
      then show ?thesis using a b True pt at by auto
    next
      case False
      show ?thesis
      proof (cases "querySelector (Element ''div'' [] (fragment m)) [] (Tags [''table''])")
        case None
        from tokens_replaceAt[OF at ne, of "[]"] obtain pre post where
          a: "tokens ?body = pre @ tokens target @ post"
          by blast
        have "domReplaceWith pf fragment h m i = innerHTML pf ?body"
          using Some sel False None by (simp add: domReplaceWith_def Let_def)
        then show ?thesis using a False None pt at by auto
      next
        case (Some nt)
        from tokens_replaceAt[OF at ne, of "[snd nt]"] obtain pre post where
          a: "tokens ?body = pre @ tokens target @ post"
          and b: "tokens (replaceAt ?body path [snd nt]) = pre @ tokensOf [snd nt] @ post"
          by blast
        have "domReplaceWith pf fragment h m i = innerHTML pf (replaceAt ?body path [snd nt])"
          using \<open>querySelector (parse pf (js ''<body>'' @ h @ js ''</body>'')) [] (Tags [''body'']) = Some b\<close>
            sel r(1) False Some pt
          by (simp add: domReplaceWith_def Let_def)
        then show ?thesis using a b False Some pt at by auto
      qed
    qed
  qed
  have below0: "domReplaceWith pf fragment h m i = h \<or> domReplaceWith pf fragment h m i = innerHTML pf ?body"
    if "i < 0"
    using Some that by (auto simp: domReplaceWith_def Let_def split: option.splits)
  show ?thesis using Some ms beyond within below0 by simp
qed

text \<open>
  The field with a paragraph and two top-level tables, the first holding a nested table:
  index 1 addresses the second top-level table, not the nested one; a blank markup removes
  the target; an index beyond the tables and a markup without a table change nothing.
\<close>

lemma domReplaceWith_examples:
  "map fst (topLevelTables (Element ''body'' [] fieldNodes)) = [[1], [2]]
   \<and> domReplaceWith fieldPlatform (\<lambda>s. repairedNodes) fieldHtml (js ''<table>'') 1
       = plainOuters [fieldNodes ! 0, fieldNodes ! 1, hd repairedNodes]
   \<and> domReplaceWith fieldPlatform (\<lambda>s. repairedNodes) fieldHtml (js '' '') 0
       = plainOuters [fieldNodes ! 0, fieldNodes ! 2]
   \<and> domReplaceWith fieldPlatform (\<lambda>s. repairedNodes) fieldHtml (js ''<table>'') 2 = fieldHtml
   \<and> domReplaceWith fieldPlatform (\<lambda>s. [Text (js ''x'')]) fieldHtml (js ''x'') 0 = plainOuters fieldNodes"
  by code_simp

text \<open>
  C9. The claim asks that \<open>domReplace\<close> removes or replaces the \<open>i\<close>-th top-level table of the
  field. In the worker's module \<open>require\<close> is not bound, so the first statement of the \<open>try\<close>
  block throws and the \<open>catch\<close> returns the field as it was given, for every field, markup
  and index. For the field with a paragraph and two top-level tables, index 1 and a repaired
  table, the result is the field itself, which still holds the old table, where the
  replacement would have given the field with the second top-level table exchanged.
\<close>

theorem domReplace_returns_field_unchanged:
  "domReplace repairWorkerModule pf fragment h m i = h
   \<and> require repairWorkerModule (fieldPlatform, \<lambda>s. repairedNodes) = Inl (Error ''require is not defined'')
   \<and> domReplace repairWorkerModule fieldPlatform (\<lambda>s. repairedNodes) fieldHtml (js ''<table>'') 1
       = fieldHtml
   \<and> fieldHtml = plainOuters [fieldNodes ! 0, fieldNodes ! 1, fieldNodes ! 2]
   \<and> domReplaceWith fieldPlatform (\<lambda>s. repairedNodes) fieldHtml (js ''<table>'') 1
       = plainOuters [fieldNodes ! 0, fieldNodes ! 1, hd repairedNodes]
   \<and> plainOuters [fieldNodes ! 0, fieldNodes ! 1, hd repairedNodes] \<noteq> fieldHtml"
proof -
  have a: "domReplace repairWorkerModule pf fragment h m i = h" for pf fragment h m i
    by (simp add: domReplace_def require_def repairWorkerModule_def)
  have b: "require repairWorkerModule (fieldPlatform, \<lambda>s. repairedNodes)
           = Inl (Error ''require is not defined'')"
    by (simp add: require_def repairWorkerModule_def)
  have c: "fieldHtml = plainOuters [fieldNodes ! 0, fieldNodes ! 1, fieldNodes ! 2]"
    and d: "domReplaceWith fieldPlatform (\<lambda>s. repairedNodes) fieldHtml (js ''<table>'') 1
       = plainOuters [fieldNodes ! 0, fieldNodes ! 1, hd repairedNodes]"
    and e: "plainOuters [fieldNodes ! 0, fieldNodes ! 1, hd repairedNodes] \<noteq> fieldHtml"
    by code_simp+
  show ?thesis using a b c d e by simp
qed


end
